theory Spec2Isabelle
  imports Complex_Main "HOL-Library.Sublist"
begin

section \<open>JavaScript values used by the pipeline\<close>

text \<open>
  Strings are byte strings (\<open>char list\<close>); the file names, model names and error
  messages the code matches on are ASCII.  A thrown JavaScript value is kept with the two
  things the code reads from it: its \<open>message\<close> property (absent on a thrown
  non-Error value) and the result of \<open>toString()\<close>.
\<close>

datatype js_error = JsError (message: "string option") (toStr: string)

text \<open>\<open>new Error(msg)\<close>: the message, and \<open>toString()\<close> giving \<open>Error: msg\<close>.\<close>

definition newError :: "string \<Rightarrow> js_error" where
  "newError msg = JsError (Some msg) (''Error: '' @ msg)"

text \<open>\<open>s.includes(t)\<close>: \<open>t\<close> occurs in \<open>s\<close> as a contiguous substring.\<close>

definition includesStr :: "string \<Rightarrow> string \<Rightarrow> bool" where
  "includesStr s t = sublist t s"

text \<open>\<open>s.endsWith(t)\<close>.\<close>

definition endsWith :: "string \<Rightarrow> string \<Rightarrow> bool" where
  "endsWith s t = suffix t s"

text \<open>\<open>s.toLowerCase()\<close> on ASCII: the letters A to Z move to a to z.\<close>

definition lowerChar :: "char \<Rightarrow> char" where
  "lowerChar c =
     (let n = (of_char c :: nat) in if 65 \<le> n \<and> n \<le> 90 then char_of (n + 32) else c)"

definition toLowerCase :: "string \<Rightarrow> string" where
  "toLowerCase s = map lowerChar s"

text \<open>JSON values as \<open>JSON.parse\<close> produces them; numbers are kept exact.\<close>

datatype json =
    JNull
  | JBool bool
  | JNum rat
  | JStr string
  | JArr "json list"
  | JObj "(string \<times> json) list"

text \<open>JavaScript truthiness of a JSON value.\<close>

fun truthy :: "json \<Rightarrow> bool" where
  "truthy JNull = False"
| "truthy (JBool b) = b"
| "truthy (JNum n) = (n \<noteq> 0)"
| "truthy (JStr s) = (s \<noteq> [])"
| "truthy (JArr _) = True"
| "truthy (JObj _) = True"

text \<open>
  Reading a named property of a parsed value: an object gives the member (or
  \<open>undefined\<close>, here \<open>None\<close>); the other values the metric code can meet have no
  such property.  Reading a property of \<open>null\<close> throws and is handled where it can
  occur.
\<close>

fun getProp :: "json \<Rightarrow> string \<Rightarrow> json option" where
  "getProp (JObj kvs) k = map_of kvs k"
| "getProp _ k = None"

section \<open>The model gateway: ordered fallback over provider candidates\<close>

definition GEMINI_FALLBACK_MODELS :: "string list" where
  "GEMINI_FALLBACK_MODELS =
     [''gemini-2.5-pro'', ''gemini-2.5-flash'', ''gemini-pro-latest'', ''gemini-2.0-flash-001'']"

definition GEMINI_VISION_FALLBACK_MODELS :: "string list" where
  "GEMINI_VISION_FALLBACK_MODELS =
     [''gemini-2.5-pro'', ''gemini-2.5-flash'', ''gemini-pro-latest'', ''gemini-2.0-flash-001'']"

datatype modelType = Claude | Gemini | OpenAI

text \<open>
  The text gateways compute \<open>error.message || error.toString()\<close>; an absent or empty
  message is falsy.
\<close>

definition errorMsg :: "js_error \<Rightarrow> string" where
  "errorMsg e = (case message e of None \<Rightarrow> toStr e | Some m \<Rightarrow> if m = [] then toStr e else m)"

definition isQuotaMsg :: "string \<Rightarrow> bool" where
  "isQuotaMsg m = (includesStr m ''429'' \<or> includesStr m ''quota'')"

definition isTokenLimitMsg :: "string \<Rightarrow> bool" where
  "isTokenLimitMsg m =
     (includesStr m ''400'' \<and> (includesStr m ''token'' \<or> includesStr m ''exceeds'' \<or> includesStr m ''1048576''))"

text \<open>The two error classes the text gateways skip on.\<close>

definition textRecoverable :: "js_error \<Rightarrow> bool" where
  "textRecoverable e = (isQuotaMsg (errorMsg e) \<or> isTokenLimitMsg (errorMsg e))"

text \<open>
  The vision gateway tests \<open>error.message?.includes('429') || error.message?.includes('quota')\<close>:
  only the quota class, and only on the \<open>message\<close> property.
\<close>

definition visionRecoverable :: "js_error \<Rightarrow> bool" where
  "visionRecoverable e = (case message e of None \<Rightarrow> False | Some m \<Rightarrow> isQuotaMsg m)"

definition textExhausted :: js_error where
  "textExhausted = newError ''All Gemini models exceeded quota/token limits or unavailable''"

definition visionExhausted :: js_error where
  "visionExhausted = newError ''All Gemini models exceeded quota or unavailable''"

text \<open>
  One gateway call.  The provider is a function from the candidate's model name to the
  outcome of that one request (a thrown value, or the response text).  The result pairs
  the candidates that were called, in call order, with the value returned or thrown.
\<close>

type_synonym provider = "string \<Rightarrow> js_error + string"

fun geminiTextLoop :: "provider \<Rightarrow> string list \<Rightarrow> string list \<times> (js_error + string)" where
  "geminiTextLoop call [] = ([], Inl textExhausted)"
| "geminiTextLoop call (modelName # rest) =
     (case call modelName of
        Inr text \<Rightarrow> ([modelName], Inr text)
      | Inl error \<Rightarrow>
          if isQuotaMsg (errorMsg error) then
            (let (tried, r) = geminiTextLoop call rest in (modelName # tried, r))
          else if isTokenLimitMsg (errorMsg error) then
            (let (tried, r) = geminiTextLoop call rest in (modelName # tried, r))
          else ([modelName], Inl error))"

fun geminiVisionLoop :: "provider \<Rightarrow> string list \<Rightarrow> string list \<times> (js_error + string)" where
  "geminiVisionLoop call [] = ([], Inl visionExhausted)"
| "geminiVisionLoop call (modelName # rest) =
     (case call modelName of
        Inr text \<Rightarrow> ([modelName], Inr text)
      | Inl error \<Rightarrow>
          if visionRecoverable error then
            (let (tried, r) = geminiVisionLoop call rest in (modelName # tried, r))
          else ([modelName], Inl error))"

text \<open>\<open>callLLMWithFallback\<close> (architect) and \<open>callCoderLLMWithFallback\<close> (coder).\<close>

definition callLLMWithFallback :: "provider \<Rightarrow> modelType \<Rightarrow> string list \<times> (js_error + string)" where
  "callLLMWithFallback call modelType =
     (case modelType of
        Claude \<Rightarrow> ([''claude-3-5-sonnet-20241022''], call ''claude-3-5-sonnet-20241022'')
      | OpenAI \<Rightarrow> ([''gpt-4o''], call ''gpt-4o'')
      | Gemini \<Rightarrow> geminiTextLoop call GEMINI_FALLBACK_MODELS)"

definition callCoderLLMWithFallback :: "provider \<Rightarrow> modelType \<Rightarrow> string list \<times> (js_error + string)" where
  "callCoderLLMWithFallback call modelType =
     (case modelType of
        Claude \<Rightarrow> ([''claude-3-5-sonnet-20241022''], call ''claude-3-5-sonnet-20241022'')
      | OpenAI \<Rightarrow> ([''gpt-4o''], call ''gpt-4o'')
      | Gemini \<Rightarrow> geminiTextLoop call GEMINI_FALLBACK_MODELS)"

text \<open>
  \<open>callVisionAPIWithFallback\<close>: without Gemini one request to \<open>gpt-4o\<close>, whose empty
  content is replaced by \<open>{}\<close>.
\<close>

definition callVisionAPIWithFallback :: "provider \<Rightarrow> bool \<Rightarrow> string list \<times> (js_error + string)" where
  "callVisionAPIWithFallback call isGemini =
     (if \<not> isGemini then
        ([''gpt-4o''],
         (case call ''gpt-4o'' of Inl e \<Rightarrow> Inl e | Inr c \<Rightarrow> Inr (if c = [] then ''{}'' else c)))
      else geminiVisionLoop call GEMINI_VISION_FALLBACK_MODELS)"


section \<open>Extraction snapshot and context chunker\<close>

datatype domSnapshot =
  DOMSnapshot (html: string) (selector: string) (tag: string) (classes: "string list")
    (textContent: string) (children: "domSnapshot list")

record computedStyleData =
  styleSelector :: string
  styles :: "(string \<times> string) list"

record layoutData =
  layoutSelector :: string
  bbox :: "rat \<times> rat \<times> rat \<times> rat"
  zIndex :: int

record assetData =
  assetType :: string
  originalUrl :: string
  localPath :: string

record animationData =
  animSelector :: string
  animType :: string
  properties :: "(string \<times> string) list list"

record pageMeta =
  title :: string
  metaDescription :: string
  viewport :: string
  theme :: string

record scoutOutput =
  scoutUrl :: string
  scoutTimestamp :: string
  dom :: domSnapshot
  computedStyles :: "computedStyleData list"
  layout :: "layoutData list"
  assets :: "assetData list"
  animations :: "animationData list"
  breakpoints :: "nat \<times> nat \<times> nat"
  meta :: pageMeta

text \<open>An element of one of the three flat lists, as it travels inside a chunk's \<open>data\<close>.\<close>

datatype item =
    StyleItem computedStyleData
  | LayoutItem layoutData
  | AnimItem animationData

record chunk =
  chunkType :: string
  chunkData :: "item list"
  chunkIndex :: nat
  chunkTotal :: nat

text \<open>\<open>xs.slice(a, b)\<close> for \<open>0 \<le> a \<le> b\<close>.\<close>

definition slice :: "'a list \<Rightarrow> nat \<Rightarrow> nat \<Rightarrow> 'a list" where
  "slice xs a b = take (b - a) (drop a xs)"

text \<open>\<open>Math.ceil(n / chunkSize)\<close> for a positive chunk size.\<close>

definition ceilDiv :: "nat \<Rightarrow> nat \<Rightarrow> nat" where
  "ceilDiv n chunkSize = (n + chunkSize - 1) div chunkSize"

text \<open>One of the three \<open>for\<close> loops of \<open>chunkScoutData\<close>: chunk \<open>i\<close> of \<open>total\<close>.\<close>

definition chunksOf :: "string \<Rightarrow> item list \<Rightarrow> nat \<Rightarrow> chunk list" where
  "chunksOf ty xs chunkSize =
     (let total = ceilDiv (length xs) chunkSize in
      map (\<lambda>i. \<lparr>chunkType = ty, chunkData = slice xs (i * chunkSize) ((i + 1) * chunkSize),
                 chunkIndex = i, chunkTotal = total\<rparr>) [0..<total])"

text \<open>
  \<open>chunkScoutData\<close>.  The chunk size is a positive integer at both call sites (the
  default 200 and the architect's 300).  With a chunk size of 0 the bound
  \<open>Math.ceil(n / 0)\<close> is \<open>Infinity\<close> for a non-empty list and the loop pushes chunks
  for ever (\<open>None\<close>); for an empty list it is \<open>NaN\<close> and the loop body never runs.
\<close>

definition chunkScoutData :: "scoutOutput \<Rightarrow> nat \<Rightarrow> chunk list option" where
  "chunkScoutData scoutData chunkSize =
     (if chunkSize = 0 then
        (if computedStyles scoutData = [] \<and> layout scoutData = [] \<and> animations scoutData = []
         then Some [] else None)
      else Some (chunksOf ''styles'' (map StyleItem (computedStyles scoutData)) chunkSize
               @ chunksOf ''layout'' (map LayoutItem (layout scoutData)) chunkSize
               @ chunksOf ''animations'' (map AnimItem (animations scoutData)) chunkSize))"

fun countDOMNodes :: "domSnapshot \<Rightarrow> nat" where
  "countDOMNodes (DOMSnapshot h s t c x cs) = 1 + sum_list (map countDOMNodes cs)"

record scoutStats =
  totalStyles :: nat
  totalLayout :: nat
  totalAnimations :: nat
  domNodes :: nat

record scoutOverview =
  overviewUrl :: string
  overviewMeta :: pageMeta
  overviewDom :: domSnapshot
  overviewAssets :: "assetData list"
  stats :: scoutStats

text \<open>\<open>getScoutOverview\<close>: ten children of the root, three grandchildren under each.\<close>

definition getScoutOverview :: "scoutOutput \<Rightarrow> scoutOverview" where
  "getScoutOverview scoutData =
     \<lparr>overviewUrl = scoutUrl scoutData,
      overviewMeta = meta scoutData,
      overviewDom =
        (case dom scoutData of
           DOMSnapshot h s t c x cs \<Rightarrow>
             DOMSnapshot h s t c x
               (map (\<lambda>child. case child of
                       DOMSnapshot h' s' t' c' x' cs' \<Rightarrow> DOMSnapshot h' s' t' c' x' (take 3 cs'))
                    (take 10 cs))),
      overviewAssets = assets scoutData,
      stats = \<lparr>totalStyles = length (computedStyles scoutData),
               totalLayout = length (layout scoutData),
               totalAnimations = length (animations scoutData),
               domNodes = countDOMNodes (dom scoutData)\<rparr>\<rparr>"


section \<open>Job state\<close>

datatype componentSpec =
  ComponentSpec (name: string) (componentType: string) (componentSelector: string)
    (tailwindClasses: "string list") (componentChildren: "componentSpec list")

record architectPlan =
  components :: "componentSpec list"
  conflicts :: "(string \<times> string \<times> string \<times> string) list"
  deviationNotes :: "string list"
  colorPalette :: "(string \<times> string) list"
  typography :: "string \<times> string \<times> (string \<times> string) list"
  spacing :: "nat \<times> nat list"

text \<open>
  \<open>files\<close> is the object's own keys with their values, in \<open>Object.keys\<close> order
  (the keys of an object are distinct).
\<close>

record generatedCode =
  files :: "(string \<times> string) list"
  dependencies :: "(string \<times> string list) list"
  packages :: "(string \<times> string) list \<times> (string \<times> string) list"

record qaMetrics =
  structuralSimilarity :: rat
  visualSimilarity :: rat
  layoutAccuracy :: rat
  colorAccuracy :: rat

record qaScreenshots =
  original :: string
  generated :: string

record issue =
  severity :: string
  category :: string
  description :: string
  suggestion :: string

record qaResult =
  score :: int
  passed :: bool
  metrics :: qaMetrics
  screenshots :: qaScreenshots
  issues :: "issue list"

datatype status = Pending | Scouting | Planning | Coding | Qa | Complete | Failed

record attemptEntry =
  attempt :: nat
  qaScore :: int
  attemptIssues :: "string list"
  attemptTimestamp :: string

record decisionEntry =
  decisionTimestamp :: string
  decisionNode :: string
  decision :: string
  reasoning :: string

text \<open>\<open>error\<close> holds \<open>error.message\<close>, which is \<open>undefined\<close> on a thrown non-Error.\<close>

record errorEntry =
  node :: string
  error :: "string option"
  timestamp :: string

record agentState =
  jobId :: string
  url :: string
  userInstructions :: "string option"
  status :: status
  currentNode :: "string option"
  scoutData :: "scoutOutput option"
  architectPlan :: "architectPlan option"
  generatedCode :: "generatedCode option"
  qaResult :: "qaResult option"
  retryCount :: nat
  maxRetries :: nat
  attemptHistory :: "attemptEntry list"
  decisionLog :: "decisionEntry list"
  errors :: "errorEntry list"
  startedAt :: string
  completedAt :: "string option"

text \<open>
  \<open>Partial<AgentState>\<close>: what a stage returns.  A key that is absent from the returned
  object is \<open>None\<close>.
\<close>

record partialState =
  p_jobId :: "string option"
  p_url :: "string option"
  p_userInstructions :: "string option"
  p_status :: "status option"
  p_currentNode :: "string option option"
  p_scoutData :: "scoutOutput option"
  p_architectPlan :: "architectPlan option"
  p_generatedCode :: "generatedCode option"
  p_qaResult :: "qaResult option"
  p_retryCount :: "nat option"
  p_maxRetries :: "nat option"
  p_attemptHistory :: "attemptEntry list option"
  p_decisionLog :: "decisionEntry list option"
  p_errors :: "errorEntry list option"
  p_startedAt :: "string option"
  p_completedAt :: "string option"

definition emptyUpdate :: partialState where
  "emptyUpdate =
     \<lparr>p_jobId = None, p_url = None, p_userInstructions = None, p_status = None,
      p_currentNode = None, p_scoutData = None, p_architectPlan = None,
      p_generatedCode = None, p_qaResult = None, p_retryCount = None, p_maxRetries = None,
      p_attemptHistory = None, p_decisionLog = None, p_errors = None, p_startedAt = None,
      p_completedAt = None\<rparr>"

definition orElse :: "'a option \<Rightarrow> 'a \<Rightarrow> 'a" where
  "orElse u old = (case u of None \<Rightarrow> old | Some v \<Rightarrow> v)"

definition orKeep :: "'a option \<Rightarrow> 'a option \<Rightarrow> 'a option" where
  "orKeep u old = (case u of None \<Rightarrow> old | Some v \<Rightarrow> Some v)"

text \<open>The merge of the orchestrator: \<open>{ ...currentState, ...result }\<close>.\<close>

definition merge :: "agentState \<Rightarrow> partialState \<Rightarrow> agentState" where
  "merge s u =
     \<lparr>jobId = orElse (p_jobId u) (jobId s),
      url = orElse (p_url u) (url s),
      userInstructions = orKeep (p_userInstructions u) (userInstructions s),
      status = orElse (p_status u) (status s),
      currentNode = orElse (p_currentNode u) (currentNode s),
      scoutData = orKeep (p_scoutData u) (scoutData s),
      architectPlan = orKeep (p_architectPlan u) (architectPlan s),
      generatedCode = orKeep (p_generatedCode u) (generatedCode s),
      qaResult = orKeep (p_qaResult u) (qaResult s),
      retryCount = orElse (p_retryCount u) (retryCount s),
      maxRetries = orElse (p_maxRetries u) (maxRetries s),
      attemptHistory = orElse (p_attemptHistory u) (attemptHistory s),
      decisionLog = orElse (p_decisionLog u) (decisionLog s),
      errors = orElse (p_errors u) (errors s),
      startedAt = orElse (p_startedAt u) (startedAt s),
      completedAt = orKeep (p_completedAt u) (completedAt s)\<rparr>"

text \<open>
  The \<open>catch\<close> block shared by the four stages: status \<open>failed\<close> and the error list
  with one entry appended, nothing else.
\<close>

definition failedUpdate :: "string \<Rightarrow> agentState \<Rightarrow> js_error \<Rightarrow> string \<Rightarrow> partialState" where
  "failedUpdate nodeName state e now =
     emptyUpdate\<lparr>p_status := Some Failed,
                 p_errors := Some (errors state @ [\<lparr>node = nodeName, error = message e, timestamp = now\<rparr>])\<rparr>"

text \<open>The TypeError of reading a property of \<open>undefined\<close>.\<close>

definition typeErrorUndefined :: "string \<Rightarrow> js_error" where
  "typeErrorUndefined prop =
     JsError (Some (''Cannot read properties of undefined (reading '' @ [CHR 0x27] @ prop @ [CHR 0x27] @ '')''))
             (''TypeError: Cannot read properties of undefined (reading '' @ [CHR 0x27] @ prop @ [CHR 0x27] @ '')'')"

text \<open>Decimal rendering of numbers inside template strings.\<close>

fun showNat :: "nat \<Rightarrow> string" where
  "showNat n = (if n < 10 then [char_of (48 + n)] else showNat (n div 10) @ [char_of (48 + n mod 10)])"

declare showNat.simps [simp del]

definition showInt :: "int \<Rightarrow> string" where
  "showInt i = (if i < 0 then ''-'' @ showNat (nat (- i)) else showNat (nat i))"

text \<open>\<open>xs.join(sep)\<close>.\<close>

fun joinWith :: "string \<Rightarrow> string list \<Rightarrow> string" where
  "joinWith sep [] = []"
| "joinWith sep [x] = x"
| "joinWith sep (x # y # ys) = x @ sep @ joinWith sep (y # ys)"

text \<open>
  \<open>content.match(/\{[\s\S]*\}/)\<close>: from the first opening brace to the last closing
  brace after it.
\<close>

definition jsonMatch :: "string \<Rightarrow> string option" where
  "jsonMatch content =
     (let t = dropWhile (\<lambda>c. c \<noteq> CHR ''{'') content in
      if t = [] then None
      else (let r = rev (dropWhile (\<lambda>c. c \<noteq> CHR ''}'') (rev (tl t))) in
            if r = [] then None else Some (CHR ''{'' # r)))"


section \<open>The outside world\<close>

text \<open>
  The prompts of the architect, by template; each carries the values its template
  interpolates.
\<close>

datatype prompt =
    InitialPrompt scoutOverview string
  | ChunkPrompt nat nat chunk string
  | PartPrompt1 string "item list"
  | PartPrompt2 string "item list" string
  | SummaryPrompt nat
  | FinalPrompt string nat nat nat nat string

text \<open>The values interpolated into the coder's system and user prompts.\<close>

record coderPrompt =
  assetMappings :: "(string \<times> string) list"
  previousIssues :: "string option"
  promptPlan :: "architectPlan option"
  totalAssets :: nat
  assetsToSend :: "assetData list"

text \<open>
  The parsed answer of the vision provider: its keys and the two members the validator
  reads.  The \<open>metrics\<close> member is kept as parsed; the \<open>issues\<close> member, when present, is
  an array of issue objects, as the \<open>QAResult\<close> interface has it.
\<close>

record gptResult =
  gptKeys :: "string list"
  gptMetrics :: "json option"
  gptIssues :: "issue list option"

text \<open>
  Everything a job reads from outside: the clock, the model configuration, the browser,
  the providers and \<open>JSON.parse\<close>.  Provider and browser outcomes are indexed by the
  number of the request, since the same request can be answered differently each time.
  \<^item> \<open>freshJobId\<close>: the identifier built from the clock and \<open>Math.random\<close> when the
    caller passes none.
  \<^item> \<open>scoutRun url jobId\<close>: the whole browser extraction of the scout stage.
  \<^item> \<open>architectLLM k p\<close>: the architect's \<open>k\<close>-th gateway call, with prompt \<open>p\<close>.
  \<^item> \<open>coderLLM k p\<close>, \<open>renderGenerated k\<close>, \<open>captureOriginal k\<close>, \<open>visionLLM k\<close>:
    the requests of the \<open>k\<close>-th coder and validator runs of the job.
  \<^item> \<open>parsePlan\<close>, \<open>parseCode\<close>, \<open>parseQA\<close>: \<open>JSON.parse\<close> at the three typed uses;
    \<open>Inl\<close> is the SyntaxError it throws or, for the plan and the code, the TypeError
    of the first read of a member the parsed value lacks (\<open>components\<close>, \<open>files\<close>).
\<close>

record env =
  now :: string
  freshJobId :: string
  architectModel :: modelType
  coderModel :: modelType
  qaIsGemini :: bool
  scoutRun :: "string \<Rightarrow> string \<Rightarrow> js_error + scoutOutput"
  architectLLM :: "nat \<Rightarrow> prompt \<Rightarrow> provider"
  parsePlan :: "string \<Rightarrow> js_error + architectPlan"
  coderLLM :: "nat \<Rightarrow> coderPrompt \<Rightarrow> provider"
  parseCode :: "string \<Rightarrow> js_error + generatedCode"
  renderGenerated :: "nat \<Rightarrow> generatedCode \<Rightarrow> js_error + string"
  captureOriginal :: "nat \<Rightarrow> string \<Rightarrow> js_error + string"
  visionLLM :: "nat \<Rightarrow> qaScreenshots \<Rightarrow> provider"
  parseQA :: "string \<Rightarrow> js_error + gptResult"

section \<open>Scout stage\<close>

definition scoutNode :: "env \<Rightarrow> agentState \<Rightarrow> partialState" where
  "scoutNode ev state =
     (case scoutRun ev (url state) (jobId state) of
        Inl e \<Rightarrow> failedUpdate ''scout'' state e (now ev)
      | Inr scoutOutput \<Rightarrow>
          emptyUpdate\<lparr>
            p_scoutData := Some scoutOutput,
            p_status := Some Planning,
            p_currentNode := Some (Some ''architect''),
            p_decisionLog := Some (decisionLog state @
              [\<lparr>decisionTimestamp = now ev, decisionNode = ''scout'',
                decision = ''Completed website analysis'',
                reasoning = ''Extracted '' @ showNat (length (computedStyles scoutOutput))
                  @ '' elements, '' @ showNat (length (assets scoutOutput))
                  @ '' assets, '' @ showNat (length (animations scoutOutput)) @ '' animations''\<rparr>])\<rparr>)"

section \<open>Architect stage\<close>

text \<open>
  The running variables of \<open>architectNode\<close>, with the number of gateway calls made and
  the prompts sent so far.
\<close>

record archSt =
  accumulatedContext :: string
  planSummary :: string
  calls :: nat
  sent :: "prompt list"

definition callArch :: "env \<Rightarrow> archSt \<Rightarrow> prompt \<Rightarrow> archSt \<times> (js_error + string)" where
  "callArch ev st p =
     (st\<lparr>calls := calls st + 1, sent := sent st @ [p]\<rparr>,
      snd (callLLMWithFallback (architectLLM ev (calls st) p) (architectModel ev)))"

text \<open>\<open>error.message?.includes('token') || error.message?.includes('exceeds')\<close>.\<close>

definition tokenError :: "js_error \<Rightarrow> bool" where
  "tokenError e =
     (case message e of None \<Rightarrow> False
      | Some m \<Rightarrow> includesStr m ''token'' \<or> includesStr m ''exceeds'')"

text \<open>The summarisation at the end of the loop body, every third chunk and at the last.\<close>

definition summarize :: "env \<Rightarrow> nat \<Rightarrow> nat \<Rightarrow> archSt \<Rightarrow> archSt \<times> js_error option" where
  "summarize ev i n st =
     (if (i + 1) mod 3 = 0 \<or> i = n - 1 then
        (case callArch ev st (SummaryPrompt (i + 1)) of
           (st', Inl e) \<Rightarrow> (st', Some e)
         | (st', Inr summary) \<Rightarrow> (st'\<lparr>planSummary := summary, accumulatedContext := summary\<rparr>, None))
      else (st, None))"

text \<open>
  The body of the chunk loop for chunk \<open>i\<close> of \<open>n\<close>; \<open>Some e\<close> is the error that leaves
  the loop.
\<close>

definition processChunk :: "env \<Rightarrow> nat \<Rightarrow> nat \<Rightarrow> chunk \<Rightarrow> archSt \<Rightarrow> archSt \<times> js_error option" where
  "processChunk ev i n c st =
     (let previous =
            (if i > 0 then
               (if planSummary st \<noteq> [] then planSummary st else take 300 (accumulatedContext st))
             else [])
      in case callArch ev st (ChunkPrompt (i + 1) n c previous) of
           (st1, Inr chunkResponse) \<Rightarrow>
             summarize ev i n
               (st1\<lparr>accumulatedContext :=
                  (if i = 0 then chunkResponse
                   else accumulatedContext st1 @ ''\<newline>\<newline>'' @ chunkResponse)\<rparr>)
         | (st1, Inl e) \<Rightarrow>
             if tokenError e then
               (let halfSize = length (chunkData c) div 2 in
                case callArch ev st1 (PartPrompt1 (chunkType c) (take halfSize (chunkData c))) of
                  (st2, Inl retryError) \<Rightarrow> summarize ev i n st2
                | (st2, Inr response1) \<Rightarrow>
                    (case callArch ev st2
                            (PartPrompt2 (chunkType c) (drop halfSize (chunkData c)) response1) of
                       (st3, Inl retryError) \<Rightarrow> summarize ev i n st3
                     | (st3, Inr response2) \<Rightarrow>
                         summarize ev i n
                           (st3\<lparr>accumulatedContext :=
                              accumulatedContext st3 @ ''\<newline>\<newline>'' @ response1
                                @ ''\<newline>'' @ response2\<rparr>)))
             else (st1, Some e))"

text \<open>The chunk loop from index \<open>i\<close> on, over the chunks not yet processed.\<close>

fun chunkLoop :: "env \<Rightarrow> nat \<Rightarrow> nat \<Rightarrow> chunk list \<Rightarrow> archSt \<Rightarrow> archSt \<times> js_error option" where
  "chunkLoop ev i n [] st = (st, None)"
| "chunkLoop ev i n (c # cs) st =
     (case processChunk ev i n c st of
        (st', Some e) \<Rightarrow> (st', Some e)
      | (st', None) \<Rightarrow> chunkLoop ev (i + 1) n cs st')"

definition maxChunksToProcess :: nat where
  "maxChunksToProcess = 20"

text \<open>
  The final plan generation of \<open>architectNode\<close>: the synthesis prompt with the context
  summary and the counts of the full snapshot, then the match for a JSON object and its
  parse.
\<close>

definition finalPlan :: "env \<Rightarrow> agentState \<Rightarrow> scoutOutput \<Rightarrow> archSt \<Rightarrow> prompt list \<times> (js_error + architectPlan)" where
  "finalPlan ev state sd st =
     (case callArch ev st
             (FinalPrompt
                (if planSummary st \<noteq> [] then planSummary st
                 else take 1000 (accumulatedContext st))
                (length (computedStyles sd)) (length (layout sd))
                (length (animations sd)) (length (assets sd))
                (case userInstructions state of
                   None \<Rightarrow> ''None - clone exactly as-is''
                 | Some u \<Rightarrow> if u = [] then ''None - clone exactly as-is'' else u)) of
        (st', Inl e) \<Rightarrow> (sent st', Inl e)
      | (st', Inr content) \<Rightarrow>
          (case jsonMatch content of
             None \<Rightarrow> (sent st', Inl (newError ''Architect failed to return valid JSON''))
           | Some js \<Rightarrow> (sent st', parsePlan ev js)))"

text \<open>
  The body of the \<open>try\<close> block of \<open>architectNode\<close> for a present snapshot: the prompts
  sent, and the plan or the error thrown.  The chunk size 300 is positive, so
  \<open>chunkScoutData\<close> returns and the \<open>None\<close> branch below is never taken.
\<close>

definition architectRun :: "env \<Rightarrow> agentState \<Rightarrow> scoutOutput \<Rightarrow> prompt list \<times> (js_error + architectPlan)" where
  "architectRun ev state sd =
     (let st0 = \<lparr>accumulatedContext = [], planSummary = [], calls = 0, sent = []\<rparr> in
      case callArch ev st0
             (InitialPrompt (getScoutOverview sd)
                (case userInstructions state of
                   None \<Rightarrow> ''Clone the website accurately''
                 | Some u \<Rightarrow> if u = [] then ''Clone the website accurately'' else u)) of
        (st1, Inl e) \<Rightarrow> (sent st1, Inl e)
      | (st1, Inr initial) \<Rightarrow>
          (case chunkScoutData sd 300 of
             None \<Rightarrow> (sent st1, Inl (newError []))
           | Some chunks \<Rightarrow>
               (let chunksToProcess = take maxChunksToProcess chunks in
                case chunkLoop ev 0 (length chunksToProcess) chunksToProcess
                       (st1\<lparr>accumulatedContext := initial\<rparr>) of
                  (st2, Some e) \<Rightarrow> (sent st2, Inl e)
                | (st2, None) \<Rightarrow> finalPlan ev state sd st2)))"

definition architectNode :: "env \<Rightarrow> agentState \<Rightarrow> partialState" where
  "architectNode ev state =
     (case scoutData state of
        None \<Rightarrow> failedUpdate ''architect'' state (typeErrorUndefined ''url'') (now ev)
      | Some sd \<Rightarrow>
          (case snd (architectRun ev state sd) of
             Inl e \<Rightarrow> failedUpdate ''architect'' state e (now ev)
           | Inr plan \<Rightarrow>
               emptyUpdate\<lparr>
                 p_architectPlan := Some plan,
                 p_status := Some Coding,
                 p_currentNode := Some (Some ''coder''),
                 p_decisionLog := Some (decisionLog state @
                   [\<lparr>decisionTimestamp = now ev, decisionNode = ''architect'',
                     decision = ''Created component plan'',
                     reasoning = ''Designed '' @ showNat (length (components plan)) @ '' components''\<rparr>])\<rparr>))"


section \<open>Coder stage\<close>

text \<open>\<open>a || b\<close> on values that are a string or \<open>undefined\<close>: the empty string is falsy.\<close>

definition jsOr :: "string option \<Rightarrow> string option \<Rightarrow> string option" where
  "jsOr a b = (case a of None \<Rightarrow> b | Some x \<Rightarrow> if x = [] then b else Some x)"

text \<open>\<open>files[key] = value\<close>: an existing key keeps its place, a new key goes last.\<close>

definition setFile :: "(string \<times> string) list \<Rightarrow> string \<Rightarrow> string \<Rightarrow> (string \<times> string) list" where
  "setFile fs key v =
     (if key \<in> set (map fst fs) then map (\<lambda>(k, x). if k = key then (k, v) else (k, x)) fs
      else fs @ [(key, v)])"

text \<open>
  The first four operands of \<open>appFile\<close> are file contents; the last is the
  \<open>Object.keys(...).find\<close> result, a file name.
\<close>

definition appFile :: "(string \<times> string) list \<Rightarrow> string option" where
  "appFile fs =
     jsOr (map_of fs ''App.tsx'')
       (jsOr (map_of fs ''/App.tsx'')
          (jsOr (map_of fs ''app.tsx'')
             (jsOr (map_of fs ''/app.tsx'')
                (find (\<lambda>key. includesStr (toLowerCase key) ''app.tsx'') (map fst fs)))))"

definition isMainFile :: "string \<Rightarrow> bool" where
  "isMainFile key =
     (includesStr (toLowerCase key) ''app'' \<or> includesStr (toLowerCase key) ''main''
      \<or> endsWith (toLowerCase key) ''.tsx'')"

text \<open>
  The entry-file check of \<open>coderNode\<close>.  \<open>generatedCode.files[mainFile]\<close> is the value
  beside the first key that \<open>find\<close> accepts.
\<close>

definition ensureAppFile :: "generatedCode \<Rightarrow> js_error + generatedCode" where
  "ensureAppFile gc =
     (let fs = files gc in
      case jsOr (appFile fs) None of
        None \<Rightarrow>
          (case find (\<lambda>(key, v). isMainFile key) fs of
             Some (mainFile, v) \<Rightarrow> Inr (gc\<lparr>files := setFile fs ''App.tsx'' v\<rparr>)
           | None \<Rightarrow>
               Inl (newError (''Generated code missing App.tsx. Available files: ''
                              @ joinWith '', '' (map fst fs))))
      | Some a \<Rightarrow>
          if Some a \<noteq> map_of fs ''App.tsx'' then Inr (gc\<lparr>files := setFile fs ''App.tsx'' a\<rparr>)
          else Inr gc)"

definition qaFeedback :: "agentState \<Rightarrow> string" where
  "qaFeedback state =
     (case qaResult state of
        None \<Rightarrow> []
      | Some r \<Rightarrow>
          joinWith ''\<newline>'' (map (\<lambda>i. ''- '' @ description i @ '': '' @ suggestion i) (issues r)))"

text \<open>
  The system and user prompts of \<open>coderNode\<close>, as the values they interpolate: the asset
  mappings, the previous issues on a retry, the plan, and the first twenty assets.
\<close>

definition coderPromptFor :: "agentState \<Rightarrow> scoutOutput \<Rightarrow> coderPrompt" where
  "coderPromptFor state sd =
     \<lparr>assetMappings = map (\<lambda>a. (originalUrl a, localPath a)) (assets sd),
      previousIssues = (if retryCount state > 0 then Some (qaFeedback state) else None),
      promptPlan = architectPlan state,
      totalAssets = length (assets sd),
      assetsToSend = take 20 (assets sd)\<rparr>"

text \<open>\<open>coderNode\<close>, run for the \<open>k\<close>-th time in the job.\<close>

definition coderNode :: "env \<Rightarrow> nat \<Rightarrow> agentState \<Rightarrow> partialState" where
  "coderNode ev k state =
     (let isRetry = retryCount state > 0 in
      case scoutData state of
        None \<Rightarrow> failedUpdate ''coder'' state (typeErrorUndefined ''assets'') (now ev)
      | Some sd \<Rightarrow>
          (case snd (callCoderLLMWithFallback (coderLLM ev k (coderPromptFor state sd))
                       (coderModel ev)) of
             Inl e \<Rightarrow> failedUpdate ''coder'' state e (now ev)
           | Inr content \<Rightarrow>
               (case jsonMatch content of
                  None \<Rightarrow>
                    failedUpdate ''coder'' state (newError ''Coder failed to return valid JSON'') (now ev)
                | Some js \<Rightarrow>
                    (case parseCode ev js of
                       Inl e \<Rightarrow> failedUpdate ''coder'' state e (now ev)
                     | Inr parsed \<Rightarrow>
                         (case ensureAppFile parsed of
                            Inl e \<Rightarrow> failedUpdate ''coder'' state e (now ev)
                          | Inr gc \<Rightarrow>
                              emptyUpdate\<lparr>
                                p_generatedCode := Some gc,
                                p_status := Some Qa,
                                p_currentNode := Some (Some ''qa''),
                                p_decisionLog := Some (decisionLog state @
                                  [\<lparr>decisionTimestamp = now ev, decisionNode = ''coder'',
                                    decision = (if isRetry then ''Regenerated code with fixes''
                                                else ''Generated initial code''),
                                    reasoning = ''Created '' @ showNat (length (files gc))
                                                @ '' files''\<rparr>])\<rparr>)))))"

section \<open>Validation stage\<close>

definition isDigit :: "char \<Rightarrow> bool" where
  "isDigit c = (c \<in> set ''0123456789'')"

definition digitVal :: "char \<Rightarrow> nat" where
  "digitVal c = of_char c - 48"

text \<open>\<open>parseInt(ds, 10)\<close> on a run of decimal digits.\<close>

definition parseInt10 :: "string \<Rightarrow> nat" where
  "parseInt10 ds = foldl (\<lambda>a c. 10 * a + digitVal c) 0 ds"

text \<open>\<open>value.match(/(\d+)/)\<close>: the leftmost digit, and the digits that follow it.\<close>

definition matchDigits :: "string \<Rightarrow> string option" where
  "matchDigits v =
     (let r = takeWhile isDigit (dropWhile (\<lambda>c. \<not> isDigit c) v) in
      if r = [] then None else Some r)"

text \<open>\<open>getMetricValue\<close>; \<open>None\<close> is the \<open>undefined\<close> of a missing member.\<close>

fun getMetricValue :: "json option \<Rightarrow> rat" where
  "getMetricValue (Some (JNum n)) = n"
| "getMetricValue (Some (JStr v)) =
     (case matchDigits v of Some ds \<Rightarrow> of_nat (parseInt10 ds) | None \<Rightarrow> 0)"
| "getMetricValue _ = 0"

definition compositeScore :: "qaMetrics \<Rightarrow> rat" where
  "compositeScore m =
     structuralSimilarity m * (4 / 10) + visualSimilarity m * (3 / 10)
     + layoutAccuracy m * (2 / 10) + colorAccuracy m * (1 / 10)"

text \<open>\<open>Math.round\<close>: to the nearest integer, a half going up.\<close>

definition mathRound :: "rat \<Rightarrow> int" where
  "mathRound x = \<lfloor>x + 1 / 2\<rfloor>"

text \<open>The four coerced sub-metrics of a parsed \<open>metrics\<close> member.\<close>

definition coerceMetrics :: "json \<Rightarrow> qaMetrics" where
  "coerceMetrics m =
     \<lparr>structuralSimilarity = getMetricValue (getProp m ''structuralSimilarity''),
      visualSimilarity = getMetricValue (getProp m ''visualSimilarity''),
      layoutAccuracy = getMetricValue (getProp m ''layoutAccuracy''),
      colorAccuracy = getMetricValue (getProp m ''colorAccuracy'')\<rparr>"

text \<open>The \<open>qaResult\<close> object literal of \<open>qaNode\<close>.\<close>

definition makeQAResult :: "qaMetrics \<Rightarrow> qaScreenshots \<Rightarrow> issue list \<Rightarrow> qaResult" where
  "makeQAResult m shots iss =
     \<lparr>score = mathRound (compositeScore m),
      passed = (compositeScore m \<ge> 90),
      metrics = m,
      screenshots = shots,
      issues = iss\<rparr>"

text \<open>Step 3 of \<open>qaNode\<close>: the update returned for a validation result.\<close>

definition decide :: "env \<Rightarrow> agentState \<Rightarrow> qaResult \<Rightarrow> partialState" where
  "decide ev state r =
     (let shouldRetry = (\<not> passed r \<and> retryCount state < maxRetries state) in
      if passed r then
        emptyUpdate\<lparr>
          p_qaResult := Some r, p_status := Some Complete, p_currentNode := Some None,
          p_completedAt := Some (now ev),
          p_decisionLog := Some (decisionLog state @
            [\<lparr>decisionTimestamp = now ev, decisionNode = ''qa'', decision = ''Validation passed'',
              reasoning = ''Score: '' @ showInt (score r) @ ''/100''\<rparr>])\<rparr>
      else if shouldRetry then
        emptyUpdate\<lparr>
          p_qaResult := Some r, p_status := Some Coding, p_currentNode := Some (Some ''coder''),
          p_retryCount := Some (retryCount state + 1),
          p_attemptHistory := Some (attemptHistory state @
            [\<lparr>attempt = retryCount state + 1, qaScore = score r,
              attemptIssues = map description (issues r), attemptTimestamp = now ev\<rparr>]),
          p_decisionLog := Some (decisionLog state @
            [\<lparr>decisionTimestamp = now ev, decisionNode = ''qa'', decision = ''Retrying with fixes'',
              reasoning = ''Score: '' @ showInt (score r) @ ''/100 - Attempt ''
                @ showNat (retryCount state + 1) @ ''/'' @ showNat (maxRetries state)\<rparr>])\<rparr>
      else
        emptyUpdate\<lparr>
          p_qaResult := Some r, p_status := Some Complete, p_currentNode := Some None,
          p_completedAt := Some (now ev),
          p_decisionLog := Some (decisionLog state @
            [\<lparr>decisionTimestamp = now ev, decisionNode = ''qa'', decision = ''Max retries exhausted'',
              reasoning = ''Final score: '' @ showInt (score r) @ ''/100''\<rparr>])\<rparr>)"

text \<open>The \<open>appContent\<close> lookup of \<open>qaNode\<close>; \<open>None\<close> when it is empty.\<close>

definition appContent :: "(string \<times> string) list \<Rightarrow> string option" where
  "appContent fs =
     jsOr (map_of fs ''App.tsx'')
       (jsOr (map_of fs ''/App.tsx'')
          (jsOr (map_of fs ''app.tsx'')
             (jsOr (find (\<lambda>v. includesStr v ''export default'' \<or> includesStr v ''function App'')
                      (map snd fs))
                   None)))"

text \<open>
  The part of \<open>qaNode\<close> that follows the parse of the provider's answer: the check that
  a \<open>metrics\<close> member is there, the coercion of its four members, the composite score
  and the decision.  Sub-metric arithmetic is exact here, so the \<open>isNaN\<close> guard on the
  composite score has no branch.
\<close>

definition scoreAnswer :: "env \<Rightarrow> agentState \<Rightarrow> qaScreenshots \<Rightarrow> gptResult \<Rightarrow> partialState" where
  "scoreAnswer ev state shots g =
     (case (case gptMetrics g of None \<Rightarrow> None | Some m \<Rightarrow> if truthy m then Some m else None) of
        None \<Rightarrow>
          failedUpdate ''qa'' state
            (newError (''Vision API response missing metrics field. Response keys: ''
               @ joinWith '', '' (gptKeys g)))
            (now ev)
      | Some m \<Rightarrow>
          decide ev state
            (makeQAResult (coerceMetrics m) shots
               (case gptIssues g of None \<Rightarrow> [] | Some iss \<Rightarrow> iss)))"

text \<open>\<open>qaNode\<close>, run for the \<open>k\<close>-th time in the job.\<close>

definition qaNode :: "env \<Rightarrow> nat \<Rightarrow> agentState \<Rightarrow> partialState" where
  "qaNode ev k state =
     (case generatedCode state of
        None \<Rightarrow> failedUpdate ''qa'' state (typeErrorUndefined ''files'') (now ev)
      | Some gc \<Rightarrow>
     (case appContent (files gc) of
        None \<Rightarrow> failedUpdate ''qa'' state (newError ''No App.tsx content found in generated code'') (now ev)
      | Some content \<Rightarrow>
     (case renderGenerated ev k gc of
        Inl e \<Rightarrow> failedUpdate ''qa'' state e (now ev)
      | Inr generatedBase64 \<Rightarrow>
     (case scoutData state of
        None \<Rightarrow> failedUpdate ''qa'' state (typeErrorUndefined ''url'') (now ev)
      | Some sd \<Rightarrow>
     (case captureOriginal ev k (scoutUrl sd) of
        Inl e \<Rightarrow> failedUpdate ''qa'' state e (now ev)
      | Inr originalBase64 \<Rightarrow>
     (let shots = \<lparr>original = originalBase64, generated = generatedBase64\<rparr> in
      case snd (callVisionAPIWithFallback (visionLLM ev k shots) (qaIsGemini ev)) of
        Inl e \<Rightarrow> failedUpdate ''qa'' state e (now ev)
      | Inr gptResponse \<Rightarrow>
     (case jsonMatch gptResponse of
        None \<Rightarrow>
          failedUpdate ''qa'' state
            (newError (''Vision API failed to return valid JSON. Response: '' @ take 200 gptResponse))
            (now ev)
      | Some js \<Rightarrow>
     (case parseQA ev js of
        Inl parseError \<Rightarrow>
          failedUpdate ''qa'' state
            (newError (''Failed to parse JSON: ''
               @ (case message parseError of None \<Rightarrow> ''undefined'' | Some m \<Rightarrow> m)))
            (now ev)
      | Inr g \<Rightarrow> scoreAnswer ev state shots g))))))))"


section \<open>The orchestrator\<close>

text \<open>
  Every stage encloses its whole body in \<open>try\<close>/\<open>catch\<close> and returns an update, and
  \<open>updateRedisState\<close> catches its own errors, so no call inside the \<open>try\<close> block of
  \<open>runAgent\<close> throws and its \<open>catch\<close> block has no branch here.
\<close>

lemma failedUpdate_maxRetries: "p_maxRetries (failedUpdate n s e t) = None"
  by (simp add: failedUpdate_def emptyUpdate_def)

lemma coderNode_maxRetries: "p_maxRetries (coderNode ev k s) = None"
  by (simp add: coderNode_def Let_def failedUpdate_maxRetries emptyUpdate_def
      split: option.split sum.split)

lemma decide_maxRetries: "p_maxRetries (decide ev s r) = None"
  by (simp add: decide_def Let_def emptyUpdate_def)

lemma qaNode_maxRetries: "p_maxRetries (qaNode ev k s) = None"
  by (simp add: qaNode_def scoreAnswer_def Let_def failedUpdate_maxRetries decide_maxRetries
      split: option.split sum.split)

lemma merge_maxRetries: "p_maxRetries u = None \<Longrightarrow> maxRetries (merge s u) = maxRetries s"
  by (simp add: merge_def orElse_def)

text \<open>
  The retry loop of \<open>runAgent\<close>, from the loop test on: the state it ends in, the states
  written to the store on the way (every assignment to \<open>currentState\<close> in the loop is
  followed by \<open>updateRedisState\<close>) and the stages invoked, both in order.
  \<open>retryCnt\<close> is the local counter \<open>retryCount\<close>.
\<close>

function retryLoop :: "env \<Rightarrow> nat \<Rightarrow> agentState \<Rightarrow> agentState \<times> agentState list \<times> string list" where
  "retryLoop ev retryCnt currentState =
     (if status currentState = Coding \<and> retryCount currentState < maxRetries currentState
         \<and> retryCnt < maxRetries currentState then
        (let s1 = currentState\<lparr>retryCount := retryCnt + 1, status := Coding, currentNode := Some ''coder''\<rparr>;
             s2 = merge s1 (coderNode ev (retryCnt + 1) s1)
         in if status s2 = Qa then
              (let s3 = s2\<lparr>status := Qa, currentNode := Some ''qa''\<rparr>;
                   s4 = merge s3 (qaNode ev (retryCnt + 1) s3);
                   (final, ps, stages) = retryLoop ev (retryCnt + 1) s4
               in (final, [s1, s2, s3, s4] @ ps, [''coder'', ''qa''] @ stages))
            else
              (let (final, ps, stages) = retryLoop ev (retryCnt + 1) s2
               in (final, [s1, s2] @ ps, [''coder''] @ stages)))
      else (currentState, [], []))"
  by pat_completeness auto
termination
  by (relation "measure (\<lambda>(ev, retryCnt, s). maxRetries s - retryCnt)")
     (auto simp: merge_maxRetries coderNode_maxRetries qaNode_maxRetries)

declare retryLoop.simps [simp del]

record runResult =
  finalState :: agentState
  persisted :: "agentState list"
  invoked :: "string list"

definition initialState :: "env \<Rightarrow> string \<Rightarrow> string option \<Rightarrow> string option \<Rightarrow> agentState" where
  "initialState ev u instructions jobIdArg =
     \<lparr>jobId = (case jobIdArg of None \<Rightarrow> freshJobId ev
               | Some j \<Rightarrow> if j = [] then freshJobId ev else j),
      url = u,
      userInstructions = instructions,
      status = Pending,
      currentNode = None,
      scoutData = None,
      architectPlan = None,
      generatedCode = None,
      qaResult = None,
      retryCount = 0,
      maxRetries = 3,
      attemptHistory = [],
      decisionLog = [],
      errors = [],
      startedAt = now ev,
      completedAt = None\<rparr>"

text \<open>
  The pipeline of \<open>runAgent\<close> from a given initial state: the four stages in sequence,
  the retry loop, and the final marking.
\<close>

definition runFrom :: "env \<Rightarrow> agentState \<Rightarrow> runResult" where
  "runFrom ev s0 =
     (let s1 = s0\<lparr>status := Scouting, currentNode := Some ''scout''\<rparr>;
          s2 = merge s1 (scoutNode ev s1);
          s3 = s2\<lparr>status := Planning, currentNode := Some ''architect''\<rparr>;
          s4 = merge s3 (architectNode ev s3);
          s5 = s4\<lparr>status := Coding, currentNode := Some ''coder''\<rparr>;
          s6 = merge s5 (coderNode ev 0 s5);
          s7 = s6\<lparr>status := Qa, currentNode := Some ''qa''\<rparr>;
          s8 = merge s7 (qaNode ev 0 s7);
          (s9, ps, stages) = retryLoop ev 0 s8;
          s10 = (if status s9 \<noteq> Failed
                 then s9\<lparr>status := Complete, completedAt := Some (now ev)\<rparr> else s9)
      in \<lparr>finalState = s10,
          persisted = [s0, s1, s2, s3, s4, s5, s6, s7, s8] @ ps @ [s10],
          invoked = [''scout'', ''architect'', ''coder'', ''qa''] @ stages\<rparr>)"

definition runAgent :: "env \<Rightarrow> string \<Rightarrow> string option \<Rightarrow> string option \<Rightarrow> runResult" where
  "runAgent ev u instructions jobIdArg = runFrom ev (initialState ev u instructions jobIdArg)"

section \<open>The streaming boundary\<close>

datatype sseEvent =
    StatusEvent status string
  | DecisionEvent string string string
  | ErrorEvent "string option" string "string option"
  | QaIssueEvent string string string
  | QaMetricsEvent int qaMetrics bool
  | ProgressEvent string nat
  | CompleteEvent generatedCode int

text \<open>The variables of the stream; \<open>closed\<close> is set where the interval is cleared.\<close>

record streamVars =
  lastDecisionCount :: nat
  lastErrorCount :: nat
  lastStatus :: "status option"
  lastProgress :: "nat option"
  qaIssuesSent :: bool
  qaMetricsSent :: bool
  closed :: bool

definition initialVars :: streamVars where
  "initialVars =
     \<lparr>lastDecisionCount = 0, lastErrorCount = 0, lastStatus = None, lastProgress = None,
      qaIssuesSent = False, qaMetricsSent = False, closed = False\<rparr>"

definition statusMessage :: "status \<Rightarrow> string" where
  "statusMessage st =
     (case st of
        Scouting \<Rightarrow> ''Analyzing website...''
      | Planning \<Rightarrow> ''Creating component plan...''
      | Coding \<Rightarrow> ''Generating React code...''
      | Qa \<Rightarrow> ''Validating with vision AI...''
      | Complete \<Rightarrow> ''Completed!''
      | Failed \<Rightarrow> ''Failed''
      | Pending \<Rightarrow> ''pending'')"

definition progressMap :: "string \<Rightarrow> nat" where
  "progressMap n =
     (if n = ''scout'' then 25 else if n = ''architect'' then 50
      else if n = ''coder'' then 75 else if n = ''qa'' then 90 else 0)"

definition qaVisible :: "agentState \<Rightarrow> bool" where
  "qaVisible state = (status state = Qa \<or> status state = Complete \<or> status state = Coding)"

text \<open>The blocks of one poll, each taking the variables and the events queued so far.\<close>

fun sendStatus :: "agentState \<Rightarrow> streamVars \<times> sseEvent list \<Rightarrow> streamVars \<times> sseEvent list" where
  "sendStatus state (v, out) =
     (if Some (status state) \<noteq> lastStatus v then
        (v\<lparr>lastStatus := Some (status state)\<rparr>,
         out @ [StatusEvent (status state) (statusMessage (status state))])
      else (v, out))"

fun sendDecisions :: "agentState \<Rightarrow> streamVars \<times> sseEvent list \<Rightarrow> streamVars \<times> sseEvent list" where
  "sendDecisions state (v, out) =
     (if length (decisionLog state) > lastDecisionCount v then
        (v\<lparr>lastDecisionCount := length (decisionLog state)\<rparr>,
         out @ map (\<lambda>d. DecisionEvent (decisionNode d) (decision d) (reasoning d))
                   (drop (lastDecisionCount v) (decisionLog state)))
      else (v, out))"

fun sendErrors :: "agentState \<Rightarrow> streamVars \<times> sseEvent list \<Rightarrow> streamVars \<times> sseEvent list" where
  "sendErrors state (v, out) =
     (if length (errors state) > lastErrorCount v then
        (v\<lparr>lastErrorCount := length (errors state)\<rparr>,
         out @ map (\<lambda>e. ErrorEvent (error e) (node e) (Some (timestamp e)))
                   (drop (lastErrorCount v) (errors state)))
      else (v, out))"

fun sendQaIssues :: "agentState \<Rightarrow> streamVars \<times> sseEvent list \<Rightarrow> streamVars \<times> sseEvent list" where
  "sendQaIssues state (v, out) =
     (case qaResult state of
        None \<Rightarrow> (v, out)
      | Some r \<Rightarrow>
          if length (issues r) > 0 \<and> \<not> qaIssuesSent v \<and> qaVisible state then
            (v\<lparr>qaIssuesSent := True\<rparr>,
             out @ map (\<lambda>i. QaIssueEvent (description i) (suggestion i)
                              (if severity i = [] then ''medium'' else severity i))
                       (issues r))
          else (v, out))"

fun sendQaMetrics :: "agentState \<Rightarrow> streamVars \<times> sseEvent list \<Rightarrow> streamVars \<times> sseEvent list" where
  "sendQaMetrics state (v, out) =
     (case qaResult state of
        None \<Rightarrow> (v, out)
      | Some r \<Rightarrow>
          if \<not> qaMetricsSent v \<and> qaVisible state then
            (v\<lparr>qaMetricsSent := True\<rparr>, out @ [QaMetricsEvent (score r) (metrics r) (passed r)])
          else (v, out))"

fun resetFlags :: "agentState \<Rightarrow> streamVars \<times> sseEvent list \<Rightarrow> streamVars \<times> sseEvent list" where
  "resetFlags state (v, out) =
     (if currentNode state = Some ''qa'' \<and> status state = Qa \<and> qaResult state = None then
        (v\<lparr>qaIssuesSent := False, qaMetricsSent := False\<rparr>, out)
      else (v, out))"

fun sendProgress :: "agentState \<Rightarrow> streamVars \<times> sseEvent list \<Rightarrow> streamVars \<times> sseEvent list" where
  "sendProgress state (v, out) =
     (case currentNode state of
        None \<Rightarrow> (v, out)
      | Some n \<Rightarrow>
          if n = [] then (v, out)
          else if lastProgress v = None \<or> lastProgress v = Some 0
                  \<or> lastProgress v \<noteq> Some (progressMap n) then
            (v\<lparr>lastProgress := Some (progressMap n)\<rparr>, out @ [ProgressEvent n (progressMap n)])
          else (v, out))"

fun sendCompletion :: "agentState \<Rightarrow> streamVars \<times> sseEvent list \<Rightarrow> streamVars \<times> sseEvent list" where
  "sendCompletion state (v, out) =
     (if status state = Complete \<or> status state = Failed then
        (v\<lparr>closed := True\<rparr>,
         (case generatedCode state of
            Some code \<Rightarrow>
              if status state = Complete then
                out @ [CompleteEvent code (case qaResult state of None \<Rightarrow> 0 | Some r \<Rightarrow> score r)]
              else out
          | None \<Rightarrow> out))
      else (v, out))"

definition maxPollTime :: int where
  "maxPollTime = 600000"

text \<open>The blocks of the callback, in order, for a state read from the store.\<close>

definition pollState :: "streamVars \<Rightarrow> agentState \<Rightarrow> streamVars \<times> sseEvent list" where
  "pollState v state =
     sendCompletion state (sendProgress state (resetFlags state (sendQaMetrics state
       (sendQaIssues state (sendErrors state (sendDecisions state (sendStatus state (v, []))))))))"

text \<open>
  One run of the interval callback: the milliseconds elapsed since the stream started and
  what the store holds under the job's key (\<open>None\<close> when nothing is there yet).
\<close>

fun poll :: "streamVars \<Rightarrow> int \<times> agentState option \<Rightarrow> streamVars \<times> sseEvent list" where
  "poll v (elapsed, None) =
     (if elapsed > maxPollTime then
        (v\<lparr>closed := True\<rparr>, [ErrorEvent (Some ''Stream timeout'') ''stream'' None])
      else (v, []))"
| "poll v (elapsed, Some state) =
     (if elapsed > maxPollTime then
        (v\<lparr>closed := True\<rparr>, [ErrorEvent (Some ''Stream timeout'') ''stream'' None])
      else pollState v state)"

text \<open>The polls of a stream in order, until the interval is cleared.\<close>

fun runStream :: "streamVars \<Rightarrow> (int \<times> agentState option) list \<Rightarrow> sseEvent list" where
  "runStream v [] = []"
| "runStream v (t # ts) =
     (if closed v then [] else snd (poll v t) @ runStream (fst (poll v t)) ts)"

text \<open>The whole stream: the initial status event, then the polls.\<close>

definition streamEvents :: "(int \<times> agentState option) list \<Rightarrow> sseEvent list" where
  "streamEvents ticks = StatusEvent Pending ''Starting...'' # runStream initialVars ticks"

section \<open>Outcome predicates and example inputs\<close>

subsection \<open>Gateway\<close>

text \<open>Candidate \<open>m\<close> raised an error of a class the gateway skips on.\<close>

definition skips :: "(js_error \<Rightarrow> bool) \<Rightarrow> provider \<Rightarrow> string \<Rightarrow> bool" where
  "skips recoverable call m = (case call m of Inl e \<Rightarrow> recoverable e | Inr resp \<Rightarrow> False)"

text \<open>
  What ordered fallback means for one gateway call that tried the candidates \<open>tried\<close>
  and ended with \<open>r\<close>, for a class \<open>maySkip\<close> of errors that allow a skip and a class
  \<open>mustSkip\<close> of errors that force one: the tried candidates are an initial segment of the
  candidate list; all but the last raised an error that allows a skip; and either the last
  one answered, or it raised an error that does not force a skip, which is the error
  thrown, or every candidate raised an error that allows a skip and the single exhaustion
  error is thrown.
\<close>

definition fallbackOutcome ::
  "(js_error \<Rightarrow> bool) \<Rightarrow> (js_error \<Rightarrow> bool) \<Rightarrow> js_error \<Rightarrow> provider \<Rightarrow> string list
     \<Rightarrow> string list \<times> (js_error + string) \<Rightarrow> bool" where
  "fallbackOutcome maySkip mustSkip exhausted call candidates res =
     (case res of (tried, r) \<Rightarrow>
        prefix tried candidates \<and>
        (case r of
           Inr resp \<Rightarrow>
             tried \<noteq> [] \<and> list_all (skips maySkip call) (butlast tried)
             \<and> call (last tried) = Inr resp
         | Inl e \<Rightarrow>
             (tried \<noteq> [] \<and> list_all (skips maySkip call) (butlast tried)
              \<and> call (last tried) = Inl e \<and> \<not> mustSkip e)
             \<or> (tried = candidates \<and> list_all (skips maySkip call) candidates
                \<and> e = exhausted)))"

text \<open>Two provider errors, one of the token-limit class and one of the quota class.\<close>

definition tokenLimitError :: js_error where
  "tokenLimitError =
     newError ''[400 Bad Request] The input token count exceeds the maximum number of tokens allowed''"

definition quotaError :: js_error where
  "quotaError = newError ''[429 Too Many Requests] You exceeded your current quota''"

text \<open>A provider whose first Gemini candidate raises \<open>e\<close> and whose other models answer.\<close>

definition firstFails :: "js_error \<Rightarrow> provider" where
  "firstFails e = (\<lambda>m. if m = ''gemini-2.5-pro'' then Inl e else Inr ''{}'')"

subsection \<open>An example job\<close>

text \<open>A small snapshot, plan and generated code.\<close>

definition exampleScout :: scoutOutput where
  "exampleScout =
     \<lparr>scoutUrl = ''https://example.com'',
      scoutTimestamp = ''2025-01-01T00:00:00.000Z'',
      dom = DOMSnapshot ''<body></body>'' ''.'' ''body'' [] [] [],
      computedStyles = [\<lparr>styleSelector = ''#header'', styles = [(''display'', ''flex'')]\<rparr>],
      layout = [\<lparr>layoutSelector = ''#header'', bbox = (0, 0, 1440, 80), zIndex = 0\<rparr>],
      assets = [],
      animations = [],
      breakpoints = (375, 768, 1440),
      meta = \<lparr>title = ''Example'', metaDescription = [], viewport = [], theme = ''light''\<rparr>\<rparr>"

definition examplePlan :: architectPlan where
  "examplePlan =
     \<lparr>components = [ComponentSpec ''Header'' ''layout'' ''#header'' [''p-4''] []],
      conflicts = [], deviationNotes = [], colorPalette = [],
      typography = (''Inter'', ''Inter'', []), spacing = (4, [0, 1, 2, 4])\<rparr>"

definition exampleCode :: generatedCode where
  "exampleCode =
     \<lparr>files = [(''App.tsx'', ''export default function App() { return null; }'')],
      dependencies = [], packages = ([], [])\<rparr>"

text \<open>A parsed vision answer with the given four members and one issue.\<close>

definition visionAnswer :: "json \<Rightarrow> json \<Rightarrow> json \<Rightarrow> json \<Rightarrow> gptResult" where
  "visionAnswer a b c d =
     \<lparr>gptKeys = [''metrics'', ''issues''],
      gptMetrics = Some (JObj [(''structuralSimilarity'', a), (''visualSimilarity'', b),
                               (''layoutAccuracy'', c), (''colorAccuracy'', d)]),
      gptIssues = Some [\<lparr>severity = ''major'', category = ''layout'',
                          description = ''Footer positioned incorrectly'',
                          suggestion = ''Use sticky bottom positioning''\<rparr>]\<rparr>"

text \<open>
  An outside world in which every stage succeeds and the validator's \<open>k\<close>-th run is
  answered by \<open>answers k\<close>: the vision model's text names the run, and the parse reads
  the run back from it.
\<close>

definition exampleEnv :: "(nat \<Rightarrow> gptResult) \<Rightarrow> env" where
  "exampleEnv answers =
     \<lparr>now = ''2025-01-01T00:00:00.000Z'',
      freshJobId = ''job-1'',
      architectModel = Gemini,
      coderModel = Gemini,
      qaIsGemini = True,
      scoutRun = (\<lambda>u j. Inr exampleScout),
      architectLLM = (\<lambda>k p m. Inr ''{}''),
      parsePlan = (\<lambda>js. Inr examplePlan),
      coderLLM = (\<lambda>k p m. Inr ''{}''),
      parseCode = (\<lambda>js. Inr exampleCode),
      renderGenerated = (\<lambda>k gc. Inr ''generated.png''),
      captureOriginal = (\<lambda>k u. Inr ''original.png''),
      visionLLM = (\<lambda>k shots m. Inr (''{'' @ showNat k @ ''}'')),
      parseQA = (\<lambda>js. Inr (answers (parseInt10 (takeWhile isDigit (tl js)))))\<rparr>"

text \<open>Answers whose four sub-metrics all equal the \<open>k\<close>-th of the given scores.\<close>

definition scoredAnswers :: "rat list \<Rightarrow> nat \<Rightarrow> gptResult" where
  "scoredAnswers xs k =
     (let x = (if k < length xs then xs ! k else 0) in visionAnswer (JNum x) (JNum x) (JNum x) (JNum x))"

text \<open>A state of the example job as the validator receives it on its first run.\<close>

definition readyState :: agentState where
  "readyState =
     (initialState (exampleEnv (scoredAnswers [])) ''https://example.com'' None None)
       \<lparr>status := Qa, currentNode := Some ''qa'', scoutData := Some exampleScout,
        architectPlan := Some examplePlan, generatedCode := Some exampleCode\<rparr>"


subsection \<open>Chunking\<close>





subsection \<open>Stage failure\<close>

text \<open>
  The update \<open>u\<close> returned for \<open>state\<close> by the stage \<open>nodeName\<close> is a clean failure: it
  has no key but \<open>status\<close> and \<open>errors\<close>, its status is \<open>failed\<close>, and its error list is
  the state's with exactly one entry appended, tagged with the stage.
\<close>

definition failsCleanly :: "string \<Rightarrow> agentState \<Rightarrow> partialState \<Rightarrow> bool" where
  "failsCleanly nodeName state u =
     (u\<lparr>p_status := None, p_errors := None\<rparr> = emptyUpdate
      \<and> p_status u = Some Failed
      \<and> (case p_errors u of
            None \<Rightarrow> False
          | Some es \<Rightarrow> length es = length (errors state) + 1 \<and> butlast es = errors state
                       \<and> node (last es) = nodeName))"

subsection \<open>Retry loop\<close>

text \<open>
  The bound kept by the retry loop entered with local counter \<open>rc\<close> in state \<open>cs\<close>: in
  every state it writes and in the state it ends in, \<open>retryCount\<close> is at most
  \<open>maxRetries\<close>, which never changes; and it runs the coder at most
  \<open>maxRetries - rc\<close> times.
\<close>

definition loopBounded :: "agentState \<Rightarrow> nat \<Rightarrow> agentState \<times> agentState list \<times> string list \<Rightarrow> bool" where
  "loopBounded cs rc res =
     (case res of (f, ps, stages) \<Rightarrow>
        list_all (\<lambda>s. retryCount s \<le> maxRetries s \<and> maxRetries s = maxRetries cs) ps
        \<and> retryCount f \<le> maxRetries f \<and> maxRetries f = maxRetries cs
        \<and> count_list stages ''coder'' \<le> maxRetries cs - rc)"

subsection \<open>Example failures\<close>

text \<open>
  Whatever the prompt, the \<open>k\<close>-th coder request is answered, and the answer holds no
  JSON object that parses.
\<close>

definition responseUnparseable :: "env \<Rightarrow> nat \<Rightarrow> bool" where
  "responseUnparseable ev k =
     (\<forall>p. case snd (callCoderLLMWithFallback (coderLLM ev k p) (coderModel ev)) of
            Inl e \<Rightarrow> False
          | Inr content \<Rightarrow>
              (case jsonMatch content of None \<Rightarrow> True | Some js \<Rightarrow> isl (parseCode ev js)))"

text \<open>The example job with an extraction that throws.\<close>

definition scoutFailEnv :: env where
  "scoutFailEnv =
     (exampleEnv (scoredAnswers []))
       \<lparr>scoutRun := (\<lambda>u j. Inl (newError ''page.goto: net::ERR_NAME_NOT_RESOLVED''))\<rparr>"

text \<open>The example job with a coder model that answers in prose, every time.\<close>

definition proseCoderEnv :: env where
  "proseCoderEnv =
     (exampleEnv (scoredAnswers []))
       \<lparr>coderLLM := (\<lambda>k p m. Inr ''Sorry, I cannot produce the files.'')\<rparr>"

subsection \<open>Example stream and example generated code\<close>

text \<open>The score carried by a \<open>qa_metrics\<close> event; the \<open>qa_issue\<close> events.\<close>

fun qaMetricsScore :: "sseEvent \<Rightarrow> int option" where
  "qaMetricsScore (QaMetricsEvent sc m p) = Some sc"
| "qaMetricsScore _ = None"

fun isQaIssue :: "sseEvent \<Rightarrow> bool" where
  "isQaIssue (QaIssueEvent d s v) = True"
| "isQaIssue _ = False"

text \<open>The example job with a first validation score of 72 and a second of 95.\<close>

definition retryJob :: runResult where
  "retryJob = runAgent (exampleEnv (scoredAnswers [72, 95])) ''https://example.com'' None None"

text \<open>
  A stream that polls once for every state the job writes to the store, two seconds
  apart.
\<close>

definition retryJobPolls :: "(int \<times> agentState option) list" where
  "retryJobPolls =
     map (\<lambda>(i, s). (2000 * (int i + 1), Some s)) (enumerate 0 (persisted retryJob))"

text \<open>Generated code whose entry component sits in a subdirectory.\<close>

definition nestedAppCode :: generatedCode where
  "nestedAppCode =
     \<lparr>files = [(''src/App.tsx'', ''export default function App() { return null; }''),
               (''src/index.css'', ''body { margin: 0; }'')],
      dependencies = [], packages = ([], [])\<rparr>"

text \<open>The example job with a coder model that returns that code.\<close>

definition nestedAppEnv :: env where
  "nestedAppEnv = (exampleEnv (scoredAnswers []))\<lparr>parseCode := (\<lambda>js. Inr nestedAppCode)\<rparr>"


section \<open>Properties\<close>

subsection \<open>Gateway: ordered fallback\<close>

lemma geminiTextLoop_outcome:
  "fallbackOutcome textRecoverable textRecoverable textExhausted call cands
     (geminiTextLoop call cands)"
proof (induction cands)
  case Nil
  show ?case by (simp add: fallbackOutcome_def)
next
  case (Cons m ms)
  obtain tried r where tr: "geminiTextLoop call ms = (tried, r)" by fastforce
  show ?case
  proof (cases "call m")
    case (Inr resp)
    then show ?thesis by (simp add: fallbackOutcome_def)
  next
    case (Inl e)
    show ?thesis
    proof (cases "textRecoverable e")
      case False
      with Inl show ?thesis by (simp add: fallbackOutcome_def textRecoverable_def)
    next
      case True
      then have sk: "skips textRecoverable call m" using Inl by (simp add: skips_def)
      from True Inl tr have eq: "geminiTextLoop call (m # ms) = (m # tried, r)"
        by (auto simp: textRecoverable_def)
      from Cons.IH tr sk show ?thesis unfolding eq
        by (cases r; cases tried) (auto simp: fallbackOutcome_def)
    qed
  qed
qed

lemma geminiVisionLoop_outcome:
  "fallbackOutcome visionRecoverable visionRecoverable visionExhausted call cands
     (geminiVisionLoop call cands)"
proof (induction cands)
  case Nil
  show ?case by (simp add: fallbackOutcome_def)
next
  case (Cons m ms)
  obtain tried r where tr: "geminiVisionLoop call ms = (tried, r)" by fastforce
  show ?case
  proof (cases "call m")
    case (Inr resp)
    then show ?thesis by (simp add: fallbackOutcome_def)
  next
    case (Inl e)
    show ?thesis
    proof (cases "visionRecoverable e")
      case False
      with Inl show ?thesis by (simp add: fallbackOutcome_def)
    next
      case True
      then have sk: "skips visionRecoverable call m" using Inl by (simp add: skips_def)
      from True Inl tr have eq: "geminiVisionLoop call (m # ms) = (m # tried, r)"
        by auto
      from Cons.IH tr sk show ?thesis unfolding eq
        by (cases r; cases tried) (auto simp: fallbackOutcome_def)
    qed
  qed
qed

text \<open>An error the vision gateway skips on is of the quota class of the text gateways.\<close>

lemma visionRecoverable_text: "visionRecoverable e \<Longrightarrow> textRecoverable e"
  by (cases "message e")
     (auto simp: visionRecoverable_def textRecoverable_def errorMsg_def isQuotaMsg_def
        includesStr_def)

lemma skips_mono: "(\<And>e. R e \<Longrightarrow> R' e) \<Longrightarrow> skips R call m \<Longrightarrow> skips R' call m"
  by (auto simp: skips_def split: sum.splits)

lemma fallbackOutcome_mono:
  assumes "\<And>e. R e \<Longrightarrow> R' e" and "fallbackOutcome R M x call cands res"
  shows "fallbackOutcome R' M x call cands res"
proof -
  have l: "list_all (skips R call) xs \<Longrightarrow> list_all (skips R' call) xs" for xs
    using skips_mono [of R R' call, OF assms(1)] by (auto simp: list_all_iff)
  obtain tried r where res: "res = (tried, r)" by fastforce
  show ?thesis using assms(2) l [of "butlast tried"] l [of cands] unfolding res
    by (cases r) (auto simp: fallbackOutcome_def)
qed

text \<open>
  Claim C6, as the code has it.  With the Gemini model type every gateway tries its
  candidates in list order; a candidate is skipped only on an error of the quota class or
  of the token-limit class; the two text gateways (architect and coder) skip on every error
  of either class, the vision gateway on every error of the quota class (read from the
  error's message); an error of neither class is thrown at once; and when every candidate
  was skipped one exhaustion error is thrown.  With another model type there is one
  candidate and one request, whose error, of any class, is thrown as it is.
\<close>

theorem gateway_fallback:
  "fallbackOutcome textRecoverable textRecoverable textExhausted call GEMINI_FALLBACK_MODELS
     (callLLMWithFallback call Gemini)
   \<and> fallbackOutcome textRecoverable textRecoverable textExhausted call GEMINI_FALLBACK_MODELS
     (callCoderLLMWithFallback call Gemini)
   \<and> fallbackOutcome textRecoverable visionRecoverable visionExhausted call
       GEMINI_VISION_FALLBACK_MODELS (callVisionAPIWithFallback call True)
   \<and> callLLMWithFallback call Claude
       = ([''claude-3-5-sonnet-20241022''], call ''claude-3-5-sonnet-20241022'')
   \<and> callLLMWithFallback call OpenAI = ([''gpt-4o''], call ''gpt-4o'')
   \<and> callCoderLLMWithFallback call Claude
       = ([''claude-3-5-sonnet-20241022''], call ''claude-3-5-sonnet-20241022'')
   \<and> callCoderLLMWithFallback call OpenAI = ([''gpt-4o''], call ''gpt-4o'')
   \<and> fst (callVisionAPIWithFallback call False) = [''gpt-4o'']
   \<and> (\<forall>e. call ''gpt-4o'' = Inl e \<longrightarrow> snd (callVisionAPIWithFallback call False) = Inl e)"
proof -
  have v: "fallbackOutcome textRecoverable visionRecoverable visionExhausted call
       GEMINI_VISION_FALLBACK_MODELS (geminiVisionLoop call GEMINI_VISION_FALLBACK_MODELS)"
    by (rule fallbackOutcome_mono [OF visionRecoverable_text geminiVisionLoop_outcome])
  show ?thesis
    by (simp add: callLLMWithFallback_def callCoderLLMWithFallback_def
        callVisionAPIWithFallback_def geminiTextLoop_outcome v split: sum.split)
qed

text \<open>
  The theorem at a provider whose first candidate is out of quota: both gateways move on
  to the second candidate.
\<close>

theorem gateway_fallback_witness:
  "callVisionAPIWithFallback (firstFails quotaError) True
       = ([''gemini-2.5-pro'', ''gemini-2.5-flash''], Inr ''{}'')
   \<and> fallbackOutcome textRecoverable visionRecoverable visionExhausted (firstFails quotaError)
        GEMINI_VISION_FALLBACK_MODELS (callVisionAPIWithFallback (firstFails quotaError) True)
   \<and> fallbackOutcome textRecoverable textRecoverable textExhausted (firstFails quotaError)
        GEMINI_FALLBACK_MODELS (callLLMWithFallback (firstFails quotaError) Gemini)"
proof -
  have "callVisionAPIWithFallback (firstFails quotaError) True
       = ([''gemini-2.5-pro'', ''gemini-2.5-flash''], Inr ''{}'')"
    by code_simp
  with gateway_fallback [of "firstFails quotaError"] show ?thesis by simp
qed

text \<open>
  Against C6 as stated: a token-limit error on the first candidate makes the text gateway
  move to the second candidate, and makes the vision gateway throw that error without
  trying another candidate; and a quota error from the single Claude candidate is thrown as
  it is, not as an exhaustion error.
\<close>

theorem gateway_vision_token_limit_counterexample:
  "isTokenLimitMsg (errorMsg tokenLimitError)
   \<and> callLLMWithFallback (firstFails tokenLimitError) Gemini
       = ([''gemini-2.5-pro'', ''gemini-2.5-flash''], Inr ''{}'')
   \<and> callVisionAPIWithFallback (firstFails tokenLimitError) True
       = ([''gemini-2.5-pro''], Inl tokenLimitError)
   \<and> isQuotaMsg (errorMsg quotaError)
   \<and> callLLMWithFallback (\<lambda>m. Inl quotaError) Claude
       = ([''claude-3-5-sonnet-20241022''], Inl quotaError)"
  by code_simp

subsection \<open>Validation: metric coercion\<close>












subsection \<open>Validation: composite score and pass threshold\<close>










subsection \<open>Context chunker and the chunk ceiling\<close>















subsection \<open>Stage failure leaves the rest of the state alone\<close>

lemma failedUpdate_clean: "failsCleanly n s (failedUpdate n s e t)"
  by (simp add: failsCleanly_def failedUpdate_def emptyUpdate_def)

lemma scoutNode_cases:
  "(\<exists>e. scoutNode ev s = failedUpdate ''scout'' s e (now ev)) \<or> p_status (scoutNode ev s) = Some Planning"
  by (auto simp: scoutNode_def emptyUpdate_def split: sum.splits)

lemma architectNode_cases:
  "(\<exists>e. architectNode ev s = failedUpdate ''architect'' s e (now ev))
   \<or> p_status (architectNode ev s) = Some Coding"
  by (auto simp: architectNode_def emptyUpdate_def split: sum.splits option.splits)

lemma coderNode_cases:
  "(\<exists>e. coderNode ev k s = failedUpdate ''coder'' s e (now ev))
   \<or> (p_status (coderNode ev k s) = Some Qa \<and> p_generatedCode (coderNode ev k s) \<noteq> None)"
  by (auto simp: coderNode_def Let_def emptyUpdate_def split: sum.splits option.splits)

lemma decide_status: "p_status (decide ev s r) = Some Complete \<or> p_status (decide ev s r) = Some Coding"
  by (simp add: decide_def Let_def emptyUpdate_def)

lemma qaNode_cases:
  "(\<exists>e. qaNode ev k s = failedUpdate ''qa'' s e (now ev))
   \<or> (\<exists>r. qaNode ev k s = decide ev s r)"
  unfolding qaNode_def scoreAnswer_def Let_def
  by (simp split: sum.split option.split) blast

lemma failedUpdate_status: "p_status (failedUpdate n s e t) = Some Failed"
  by (simp add: failedUpdate_def emptyUpdate_def)

lemma merge_failsCleanly:
  assumes "failsCleanly n s u"
  shows "merge s u = s\<lparr>status := Failed, errors := errors s @ [last (errors (merge s u))]\<rparr>
        \<and> node (last (errors (merge s u))) = n
        \<and> scoutData (merge s u) = scoutData s \<and> architectPlan (merge s u) = architectPlan s
        \<and> generatedCode (merge s u) = generatedCode s \<and> qaResult (merge s u) = qaResult s
        \<and> retryCount (merge s u) = retryCount s \<and> attemptHistory (merge s u) = attemptHistory s
        \<and> decisionLog (merge s u) = decisionLog s"
proof -
  from assms obtain es where e: "p_errors u = Some es" and l: "length es = length (errors s) + 1"
    and b: "butlast es = errors s" and n: "node (last es) = n"
    and st: "p_status u = Some Failed" and r: "u\<lparr>p_status := None, p_errors := None\<rparr> = emptyUpdate"
    by (auto simp: failsCleanly_def split: option.splits)
  from l have "es \<noteq> []" by auto
  then have es: "es = errors s @ [last es]" using b by (metis append_butlast_last_id)
  have u: "u = emptyUpdate\<lparr>p_status := Some Failed, p_errors := Some es\<rparr>"
    using r e st by (cases u) (simp add: emptyUpdate_def)
  show ?thesis unfolding u using es n
    by (simp add: merge_def emptyUpdate_def orElse_def orKeep_def)
qed

text \<open>
  Claim C10.  Whenever the update a stage returns (scout, architect, coder or validator)
  has the status \<open>failed\<close>, that update has no key but \<open>status\<close> and \<open>errors\<close> and its
  error list is the state's with exactly one entry appended, tagged with the stage.
  Merging such an update changes the status to \<open>failed\<close> and appends that entry, and
  leaves \<open>scoutData\<close>, \<open>architectPlan\<close>, \<open>generatedCode\<close>, \<open>qaResult\<close>, \<open>retryCount\<close>,
  \<open>attemptHistory\<close>, \<open>decisionLog\<close> and every other field as they were.
\<close>

theorem failure_frame:
  "(p_status (scoutNode ev s) = Some Failed \<longrightarrow> failsCleanly ''scout'' s (scoutNode ev s))
   \<and> (p_status (architectNode ev s) = Some Failed \<longrightarrow> failsCleanly ''architect'' s (architectNode ev s))
   \<and> (p_status (coderNode ev k s) = Some Failed \<longrightarrow> failsCleanly ''coder'' s (coderNode ev k s))
   \<and> (p_status (qaNode ev k s) = Some Failed \<longrightarrow> failsCleanly ''qa'' s (qaNode ev k s))
   \<and> (failsCleanly n s u \<longrightarrow>
        merge s u = s\<lparr>status := Failed, errors := errors s @ [last (errors (merge s u))]\<rparr>
        \<and> node (last (errors (merge s u))) = n
        \<and> scoutData (merge s u) = scoutData s \<and> architectPlan (merge s u) = architectPlan s
        \<and> generatedCode (merge s u) = generatedCode s \<and> qaResult (merge s u) = qaResult s
        \<and> retryCount (merge s u) = retryCount s \<and> attemptHistory (merge s u) = attemptHistory s
        \<and> decisionLog (merge s u) = decisionLog s)"
proof -
  have 1: "p_status (scoutNode ev s) = Some Failed \<longrightarrow> failsCleanly ''scout'' s (scoutNode ev s)"
    using scoutNode_cases [of ev s] by (auto simp: failedUpdate_clean)
  have 2: "p_status (architectNode ev s) = Some Failed
             \<longrightarrow> failsCleanly ''architect'' s (architectNode ev s)"
    using architectNode_cases [of ev s] by (auto simp: failedUpdate_clean)
  have 3: "p_status (coderNode ev k s) = Some Failed \<longrightarrow> failsCleanly ''coder'' s (coderNode ev k s)"
    using coderNode_cases [of ev k s] by (auto simp: failedUpdate_clean)
  have 4: "p_status (qaNode ev k s) = Some Failed \<longrightarrow> failsCleanly ''qa'' s (qaNode ev k s)"
  proof
    assume f: "p_status (qaNode ev k s) = Some Failed"
    from qaNode_cases [of ev k s] show "failsCleanly ''qa'' s (qaNode ev k s)"
    proof
      assume "\<exists>e. qaNode ev k s = failedUpdate ''qa'' s e (now ev)"
      then show ?thesis by (auto simp: failedUpdate_clean)
    next
      assume "\<exists>r. qaNode ev k s = decide ev s r"
      then obtain r where "qaNode ev k s = decide ev s r" by blast
      with f decide_status [of ev s r] show ?thesis by simp
    qed
  qed
  have 5: "failsCleanly n s u \<longrightarrow>
        merge s u = s\<lparr>status := Failed, errors := errors s @ [last (errors (merge s u))]\<rparr>
        \<and> node (last (errors (merge s u))) = n
        \<and> scoutData (merge s u) = scoutData s \<and> architectPlan (merge s u) = architectPlan s
        \<and> generatedCode (merge s u) = generatedCode s \<and> qaResult (merge s u) = qaResult s
        \<and> retryCount (merge s u) = retryCount s \<and> attemptHistory (merge s u) = attemptHistory s
        \<and> decisionLog (merge s u) = decisionLog s"
    by (rule impI) (rule merge_failsCleanly)
  show ?thesis by (rule conjI [OF 1 conjI [OF 2 conjI [OF 3 conjI [OF 4 5]]]])
qed

text \<open>The theorem at an extraction that throws.\<close>

theorem failure_frame_witness:
  "p_status (scoutNode scoutFailEnv readyState) = Some Failed
   \<and> failsCleanly ''scout'' readyState (scoutNode scoutFailEnv readyState)
   \<and> map node (errors (merge readyState (scoutNode scoutFailEnv readyState))) = [''scout'']
   \<and> generatedCode (merge readyState (scoutNode scoutFailEnv readyState)) = generatedCode readyState
   \<and> decisionLog (merge readyState (scoutNode scoutFailEnv readyState)) = decisionLog readyState"
proof -
  have a: "p_status (scoutNode scoutFailEnv readyState) = Some Failed
           \<and> map node (errors (merge readyState (scoutNode scoutFailEnv readyState))) = [''scout'']"
    by code_simp
  note T = failure_frame [of scoutFailEnv readyState 0 "''scout''" "scoutNode scoutFailEnv readyState"]
  from T a have c: "failsCleanly ''scout'' readyState (scoutNode scoutFailEnv readyState)" by blast
  note F = T [THEN conjunct2, THEN conjunct2, THEN conjunct2, THEN conjunct2, THEN mp, OF c]
  from F a c show ?thesis by simp
qed

subsection \<open>Retry bound\<close>

lemma retryLoop_stop:
  assumes "\<not> (status cs = Coding \<and> retryCount cs < maxRetries cs \<and> rc < maxRetries cs)"
  shows "retryLoop ev rc cs = (cs, [], [])"
  by (subst retryLoop.simps) (simp only: assms if_False)

lemma retryLoop_step:
  assumes "status cs = Coding" "retryCount cs < maxRetries cs" "rc < maxRetries cs"
    and "s1 = cs\<lparr>retryCount := rc + 1, status := Coding, currentNode := Some ''coder''\<rparr>"
    and "s2 = merge s1 (coderNode ev (rc + 1) s1)"
    and "s3 = s2\<lparr>status := Qa, currentNode := Some ''qa''\<rparr>"
    and "s4 = merge s3 (qaNode ev (rc + 1) s3)"
  shows "retryLoop ev rc cs =
     (if status s2 = Qa then
        (case retryLoop ev (rc + 1) s4 of
           (f, ps, stages) \<Rightarrow> (f, [s1, s2, s3, s4] @ ps, [''coder'', ''qa''] @ stages))
      else
        (case retryLoop ev (rc + 1) s2 of
           (f, ps, stages) \<Rightarrow> (f, [s1, s2] @ ps, [''coder''] @ stages)))"
  by (subst retryLoop.simps) (simp add: assms Let_def)

lemma failedUpdate_retryCount: "p_retryCount (failedUpdate n s e t) = None"
  by (simp add: failedUpdate_def emptyUpdate_def)

lemma scoutNode_counts: "p_retryCount (scoutNode ev s) = None \<and> p_maxRetries (scoutNode ev s) = None"
  by (simp add: scoutNode_def failedUpdate_def emptyUpdate_def split: sum.split)

lemma architectNode_counts:
  "p_retryCount (architectNode ev s) = None \<and> p_maxRetries (architectNode ev s) = None"
  by (simp add: architectNode_def failedUpdate_def emptyUpdate_def split: sum.split option.split)

lemma coderNode_retryCount: "p_retryCount (coderNode ev k s) = None"
  using coderNode_cases [of ev k s]
  by (auto simp: failedUpdate_retryCount coderNode_def Let_def emptyUpdate_def
      split: option.splits sum.splits)

lemma merge_counts:
  "p_retryCount u = None \<Longrightarrow> p_maxRetries u = None
   \<Longrightarrow> retryCount (merge s u) = retryCount s \<and> maxRetries (merge s u) = maxRetries s"
  by (simp add: merge_def orElse_def)

lemma decide_retryCount:
  "p_retryCount (decide ev s r) = None
   \<or> (p_retryCount (decide ev s r) = Some (retryCount s + 1) \<and> retryCount s < maxRetries s)"
  by (simp add: decide_def Let_def emptyUpdate_def)

lemma qaNode_counts:
  assumes "retryCount s \<le> maxRetries s"
  shows "retryCount (merge s (qaNode ev k s)) \<le> maxRetries s
         \<and> maxRetries (merge s (qaNode ev k s)) = maxRetries s"
proof -
  have m: "maxRetries (merge s (qaNode ev k s)) = maxRetries s"
    by (simp add: merge_maxRetries qaNode_maxRetries)
  from qaNode_cases [of ev k s] have "retryCount (merge s (qaNode ev k s)) \<le> maxRetries s"
  proof
    assume "\<exists>e. qaNode ev k s = failedUpdate ''qa'' s e (now ev)"
    then show ?thesis using assms by (auto simp: merge_def orElse_def failedUpdate_retryCount)
  next
    assume "\<exists>r. qaNode ev k s = decide ev s r"
    then obtain r where r: "qaNode ev k s = decide ev s r" by blast
    from decide_retryCount [of ev s r] show ?thesis unfolding r using assms
      by (auto simp: merge_def orElse_def)
  qed
  with m show ?thesis by simp
qed

lemma retryLoop_bounded:
  "retryCount cs \<le> maxRetries cs \<Longrightarrow> loopBounded cs rc (retryLoop ev rc cs)"
proof (induction "maxRetries cs - rc" arbitrary: rc cs rule: less_induct)
  case less
  show ?case
  proof (cases "status cs = Coding \<and> retryCount cs < maxRetries cs \<and> rc < maxRetries cs")
    case False
    then show ?thesis using less.prems by (simp add: retryLoop_stop loopBounded_def)
  next
    case True
    define s1 where "s1 = cs\<lparr>retryCount := rc + 1, status := Coding, currentNode := Some ''coder''\<rparr>"
    define s2 where "s2 = merge s1 (coderNode ev (rc + 1) s1)"
    define s3 where "s3 = s2\<lparr>status := Qa, currentNode := Some ''qa''\<rparr>"
    define s4 where "s4 = merge s3 (qaNode ev (rc + 1) s3)"
    have b1: "retryCount s1 \<le> maxRetries s1 \<and> maxRetries s1 = maxRetries cs"
      using True by (simp add: s1_def)
    have b2: "retryCount s2 \<le> maxRetries s2 \<and> maxRetries s2 = maxRetries cs"
      using b1 merge_counts [OF coderNode_retryCount coderNode_maxRetries, of s1 ev "rc + 1"]
      by (simp add: s2_def)
    have b3: "retryCount s3 \<le> maxRetries s3 \<and> maxRetries s3 = maxRetries cs"
      using b2 by (simp add: s3_def)
    have b4: "retryCount s4 \<le> maxRetries s4 \<and> maxRetries s4 = maxRetries cs"
      using b3 qaNode_counts [of s3 ev "rc + 1"] by (simp add: s4_def)
    have d: "maxRetries cs - (rc + 1) < maxRetries cs - rc" using True by linarith
    have i4: "loopBounded s4 (rc + 1) (retryLoop ev (rc + 1) s4)"
      using less.hyps [of s4 "rc + 1"] b4 d by simp
    have i2: "loopBounded s2 (rc + 1) (retryLoop ev (rc + 1) s2)"
      using less.hyps [of s2 "rc + 1"] b2 d by simp
    have c: "Suc (maxRetries cs - (rc + 1)) \<le> maxRetries cs - rc" using True by linarith
    note st = retryLoop_step [OF _ _ _ s1_def s2_def s3_def s4_def]
    show ?thesis
    proof (cases "status s2 = Qa")
      case True
      obtain f ps stages where r: "retryLoop ev (rc + 1) s4 = (f, ps, stages)" by (metis prod_cases3)
      have "retryLoop ev rc cs = (f, [s1, s2, s3, s4] @ ps, [''coder'', ''qa''] @ stages)"
        using st \<open>status cs = Coding \<and> retryCount cs < maxRetries cs \<and> rc < maxRetries cs\<close> True r
        by simp
      then show ?thesis using i4 r b1 b2 b3 b4 c by (simp add: loopBounded_def)
    next
      case False
      obtain f ps stages where r: "retryLoop ev (rc + 1) s2 = (f, ps, stages)" by (metis prod_cases3)
      have "retryLoop ev rc cs = (f, [s1, s2] @ ps, [''coder''] @ stages)"
        using st \<open>status cs = Coding \<and> retryCount cs < maxRetries cs \<and> rc < maxRetries cs\<close> False r
        by simp
      then show ?thesis using i2 r b1 b2 c by (simp add: loopBounded_def)
    qed
  qed
qed

text \<open>
  Claim C1.  For a job started in a state with \<open>retryCount \<le> maxRetries\<close>, and so for
  every job of \<open>runAgent\<close> (which starts at 0 of 3): in every state the orchestrator holds
  and writes to the store, \<open>retryCount\<close> is at most \<open>maxRetries\<close>, and \<open>maxRetries\<close> never
  changes; and the coder is invoked at most \<open>maxRetries + 1\<close> times in all.
\<close>

theorem retry_bound:
  assumes "retryCount s0 \<le> maxRetries s0"
  shows "(\<forall>s\<in>set (persisted (runFrom ev s0)). retryCount s \<le> maxRetries s \<and> maxRetries s = maxRetries s0)
         \<and> count_list (invoked (runFrom ev s0)) ''coder'' \<le> maxRetries s0 + 1
         \<and> (\<forall>s\<in>set (persisted (runAgent ev u instr jid)). retryCount s \<le> maxRetries s \<and> maxRetries s = 3)
         \<and> count_list (invoked (runAgent ev u instr jid)) ''coder'' \<le> 3 + 1"
proof -
  have main: "(\<forall>s\<in>set (persisted (runFrom ev s0)). retryCount s \<le> maxRetries s \<and> maxRetries s = maxRetries s0)
         \<and> count_list (invoked (runFrom ev s0)) ''coder'' \<le> maxRetries s0 + 1"
    if a: "retryCount s0 \<le> maxRetries s0" for s0
  proof -
    define s1 where "s1 = s0\<lparr>status := Scouting, currentNode := Some ''scout''\<rparr>"
    define s2 where "s2 = merge s1 (scoutNode ev s1)"
    define s3 where "s3 = s2\<lparr>status := Planning, currentNode := Some ''architect''\<rparr>"
    define s4 where "s4 = merge s3 (architectNode ev s3)"
    define s5 where "s5 = s4\<lparr>status := Coding, currentNode := Some ''coder''\<rparr>"
    define s6 where "s6 = merge s5 (coderNode ev 0 s5)"
    define s7 where "s7 = s6\<lparr>status := Qa, currentNode := Some ''qa''\<rparr>"
    define s8 where "s8 = merge s7 (qaNode ev 0 s7)"
    let ?B = "\<lambda>s. retryCount s \<le> maxRetries s \<and> maxRetries s = maxRetries s0"
    have b1: "?B s1" using a by (simp add: s1_def)
    have b2: "?B s2" using b1 merge_counts [of "scoutNode ev s1" s1] scoutNode_counts [of ev s1]
      by (simp add: s2_def)
    have b3: "?B s3" using b2 by (simp add: s3_def)
    have b4: "?B s4" using b3 merge_counts [of "architectNode ev s3" s3] architectNode_counts [of ev s3]
      by (simp add: s4_def)
    have b5: "?B s5" using b4 by (simp add: s5_def)
    have b6: "?B s6"
      using b5 merge_counts [OF coderNode_retryCount coderNode_maxRetries, of s5 ev 0]
      by (simp add: s6_def)
    have b7: "?B s7" using b6 by (simp add: s7_def)
    have b8: "?B s8" using b7 qaNode_counts [of s7 ev 0] by (simp add: s8_def)
    obtain f ps stages where r: "retryLoop ev 0 s8 = (f, ps, stages)" by (metis prod_cases3)
    from retryLoop_bounded [of s8 0 ev] b8 r
    have l: "list_all ?B ps" and bf: "?B f" and c: "count_list stages ''coder'' \<le> maxRetries s0"
      by (simp_all add: loopBounded_def)
    define s10 where "s10 = (if status f \<noteq> Failed
                 then f\<lparr>status := Complete, completedAt := Some (now ev)\<rparr> else f)"
    have b10: "?B s10" using bf by (simp add: s10_def)
    have run: "runFrom ev s0 = \<lparr>finalState = s10,
          persisted = [s0, s1, s2, s3, s4, s5, s6, s7, s8] @ ps @ [s10],
          invoked = [''scout'', ''architect'', ''coder'', ''qa''] @ stages\<rparr>"
      unfolding runFrom_def Let_def s1_def [symmetric] s2_def [symmetric] s3_def [symmetric]
        s4_def [symmetric] s5_def [symmetric] s6_def [symmetric] s7_def [symmetric]
        s8_def [symmetric] r
      by (simp add: s10_def)
    show ?thesis unfolding run using a b1 b2 b3 b4 b5 b6 b7 b8 b10 l c
      by (auto simp: list_all_iff)
  qed
  have i: "retryCount (initialState ev u instr jid) \<le> maxRetries (initialState ev u instr jid)"
    and m: "maxRetries (initialState ev u instr jid) = 3"
    by (simp_all add: initialState_def)
  from main [OF assms] main [OF i] m show ?thesis unfolding runAgent_def by auto
qed

text \<open>
  The theorem at a job whose validations score 72, 50 and 30: three coder runs, and the
  retry counts written are 0, 1, 2 and 3.
\<close>

theorem retry_bound_witness:
  "map retryCount (persisted (runAgent (exampleEnv (scoredAnswers [72, 50, 30, 20])) ''https://example.com'' None None))
     = [0, 0, 0, 0, 0, 0, 0, 0, 1, 1, 1, 1, 2, 2, 2, 2, 3, 3]
   \<and> count_list (invoked (runAgent (exampleEnv (scoredAnswers [72, 50, 30, 20])) ''https://example.com'' None None)) ''coder'' = 3
   \<and> count_list (invoked (runAgent (exampleEnv (scoredAnswers [72, 50, 30, 20])) ''https://example.com'' None None)) ''coder'' \<le> 3 + 1"
proof -
  have a: "map retryCount (persisted (runAgent (exampleEnv (scoredAnswers [72, 50, 30, 20])) ''https://example.com'' None None))
     = [0, 0, 0, 0, 0, 0, 0, 0, 1, 1, 1, 1, 2, 2, 2, 2, 3, 3]
   \<and> count_list (invoked (runAgent (exampleEnv (scoredAnswers [72, 50, 30, 20])) ''https://example.com'' None None)) ''coder'' = 3"
    by code_simp
  have h: "retryCount readyState \<le> maxRetries readyState" by (simp add: readyState_def initialState_def)
  from retry_bound [OF h, of "exampleEnv (scoredAnswers [72, 50, 30, 20])" "''https://example.com''" None None] a
  show ?thesis by simp
qed


subsection \<open>A coder answer that does not parse\<close>

lemma merge_failedUpdate:
  "merge s (failedUpdate n s' e t)
     = s\<lparr>status := Failed, errors := errors s' @ [\<lparr>node = n, error = message e, timestamp = t\<rparr>]\<rparr>"
  by (simp add: merge_def failedUpdate_def emptyUpdate_def orElse_def orKeep_def)

lemma scoutNode_keeps:
  "generatedCode (merge s (scoutNode ev s)) = generatedCode s
   \<and> qaResult (merge s (scoutNode ev s)) = qaResult s"
  by (simp add: scoutNode_def merge_def failedUpdate_def emptyUpdate_def orKeep_def split: sum.split)

lemma architectNode_keeps:
  "generatedCode (merge s (architectNode ev s)) = generatedCode s
   \<and> qaResult (merge s (architectNode ev s)) = qaResult s"
  by (simp add: architectNode_def merge_def failedUpdate_def emptyUpdate_def orKeep_def
      split: sum.split option.split)

lemma qaNode_no_code:
  "generatedCode s = None \<Longrightarrow> qaNode ev k s = failedUpdate ''qa'' s (typeErrorUndefined ''files'') (now ev)"
  by (simp add: qaNode_def)

lemma architectNode_no_scout:
  "scoutData s = None \<Longrightarrow> architectNode ev s = failedUpdate ''architect'' s (typeErrorUndefined ''url'') (now ev)"
  by (simp add: architectNode_def)

lemma coderNode_no_scout:
  "scoutData s = None \<Longrightarrow> coderNode ev k s = failedUpdate ''coder'' s (typeErrorUndefined ''assets'') (now ev)"
  by (simp add: coderNode_def)

lemma coderNode_unparseable:
  assumes "responseUnparseable ev k"
  shows "\<exists>e. coderNode ev k s = failedUpdate ''coder'' s e (now ev)"
proof (cases "scoutData s")
  case None
  then show ?thesis by (auto simp: coderNode_no_scout)
next
  case (Some sd)
  from assms have u: "case snd (callCoderLLMWithFallback (coderLLM ev k (coderPromptFor s sd))
                                (coderModel ev)) of
            Inl e \<Rightarrow> False
          | Inr content \<Rightarrow>
              (case jsonMatch content of None \<Rightarrow> True | Some js \<Rightarrow> isl (parseCode ev js))"
    unfolding responseUnparseable_def by blast
  show ?thesis
    using u unfolding coderNode_def Let_def Some
    by (auto split: sum.splits option.splits)
qed
lemma retryLoop_failed: "status cs = Failed \<Longrightarrow> retryLoop ev rc cs = (cs, [], [])"
  by (rule retryLoop_stop) simp

text \<open>The run when the first coder run and hence the first validator run fail.\<close>

lemma runFrom_coder_fails:
  assumes g: "generatedCode s0 = None"
    and c: "\<And>s. \<exists>e. coderNode ev 0 s = failedUpdate ''coder'' s e (now ev)"
  shows "status (finalState (runFrom ev s0)) = Failed
         \<and> generatedCode (finalState (runFrom ev s0)) = None
         \<and> invoked (runFrom ev s0) = [''scout'', ''architect'', ''coder'', ''qa'']
         \<and> (\<exists>es. map node (errors (finalState (runFrom ev s0))) = es @ [''coder'', ''qa''])"
proof -
  define s1 where "s1 = s0\<lparr>status := Scouting, currentNode := Some ''scout''\<rparr>"
  define s2 where "s2 = merge s1 (scoutNode ev s1)"
  define s3 where "s3 = s2\<lparr>status := Planning, currentNode := Some ''architect''\<rparr>"
  define s4 where "s4 = merge s3 (architectNode ev s3)"
  define s5 where "s5 = s4\<lparr>status := Coding, currentNode := Some ''coder''\<rparr>"
  define s6 where "s6 = merge s5 (coderNode ev 0 s5)"
  define s7 where "s7 = s6\<lparr>status := Qa, currentNode := Some ''qa''\<rparr>"
  define s8 where "s8 = merge s7 (qaNode ev 0 s7)"
  have g5: "generatedCode s5 = None"
    using g scoutNode_keeps [of s1 ev] architectNode_keeps [of s3 ev]
    by (simp add: s1_def s2_def s3_def s4_def s5_def)
  from c [of s5] obtain e where e: "coderNode ev 0 s5 = failedUpdate ''coder'' s5 e (now ev)" by blast
  have s6: "s6 = s5\<lparr>status := Failed,
                   errors := errors s5 @ [\<lparr>node = ''coder'', error = message e, timestamp = now ev\<rparr>]\<rparr>"
    by (simp add: s6_def e merge_failedUpdate)
  have g7: "generatedCode s7 = None" using g5 by (simp add: s7_def s6)
  have s8: "s8 = s7\<lparr>status := Failed,
                   errors := errors s7 @ [\<lparr>node = ''qa'', error = message (typeErrorUndefined ''files''),
                                           timestamp = now ev\<rparr>]\<rparr>"
    by (simp add: s8_def qaNode_no_code [OF g7] merge_failedUpdate)
  have f8: "status s8 = Failed" by (simp add: s8)
  have run: "runFrom ev s0 = \<lparr>finalState = s8,
          persisted = [s0, s1, s2, s3, s4, s5, s6, s7, s8] @ [] @ [s8],
          invoked = [''scout'', ''architect'', ''coder'', ''qa''] @ []\<rparr>"
    unfolding runFrom_def Let_def s1_def [symmetric] s2_def [symmetric] s3_def [symmetric]
      s4_def [symmetric] s5_def [symmetric] s6_def [symmetric] s7_def [symmetric]
      s8_def [symmetric] retryLoop_failed [OF f8]
    by (simp add: f8)
  have er: "map node (errors s8) = map node (errors s5) @ [''coder'', ''qa'']"
    by (simp add: s8 s7_def s6)
  show ?thesis unfolding run using f8 g7 er by (simp add: s8)
qed

lemma proseCoder_unparseable: "responseUnparseable proseCoderEnv 0"
  unfolding responseUnparseable_def proseCoderEnv_def exampleEnv_def
  by (simp add: callCoderLLMWithFallback_def GEMINI_FALLBACK_MODELS_def jsonMatch_def)

lemma proseCoder_all_attempts: "responseUnparseable proseCoderEnv k"
  unfolding responseUnparseable_def proseCoderEnv_def exampleEnv_def
  by (simp add: callCoderLLMWithFallback_def GEMINI_FALLBACK_MODELS_def jsonMatch_def)

text \<open>
  Claim C5, as the code has it.  If the answer to the first coder request holds no JSON
  object that parses, the coder stage fails, the job ends with status \<open>failed\<close> and
  without generated code, an error entry tagged \<open>coder\<close> is recorded, and the coder is
  invoked exactly once: a stage failure is never retried.
\<close>

theorem coder_parse_failure:
  assumes "responseUnparseable ev 0"
  shows "status (finalState (runAgent ev u instr jid)) = Failed
         \<and> generatedCode (finalState (runAgent ev u instr jid)) = None
         \<and> count_list (invoked (runAgent ev u instr jid)) ''coder'' = 1
         \<and> list_ex (\<lambda>x. node x = ''coder'') (errors (finalState (runAgent ev u instr jid)))"
proof -
  have g: "generatedCode (initialState ev u instr jid) = None" by (simp add: initialState_def)
  from runFrom_coder_fails [OF g coderNode_unparseable [OF assms]]
  obtain es where
    1: "status (finalState (runAgent ev u instr jid)) = Failed"
    and 2: "generatedCode (finalState (runAgent ev u instr jid)) = None"
    and 3: "invoked (runAgent ev u instr jid) = [''scout'', ''architect'', ''coder'', ''qa'']"
    and 4: "map node (errors (finalState (runAgent ev u instr jid))) = es @ [''coder'', ''qa'']"
    unfolding runAgent_def by blast
  have "''coder'' \<in> set (map node (errors (finalState (runAgent ev u instr jid))))"
    unfolding 4 by simp
  then have 5: "list_ex (\<lambda>x. node x = ''coder'') (errors (finalState (runAgent ev u instr jid)))"
    by (auto simp: list_ex_iff)
  from 1 2 3 5 show ?thesis by simp
qed

text \<open>The theorem at a coder model that answers in prose.\<close>

theorem coder_parse_failure_witness:
  "status (finalState (runAgent proseCoderEnv ''https://example.com'' None None)) = Failed
   \<and> count_list (invoked (runAgent proseCoderEnv ''https://example.com'' None None)) ''coder'' = 1"
  using coder_parse_failure [OF proseCoder_unparseable, of "''https://example.com''" None None]
  by simp

text \<open>
  Against C5 as stated: the coder's answer fails to parse on each of the four attempts it
  could be asked for, and the job ends \<open>failed\<close>, not \<open>complete\<close>.
\<close>

theorem coder_parse_failure_counterexample:
  "responseUnparseable proseCoderEnv 0 \<and> responseUnparseable proseCoderEnv 1
   \<and> responseUnparseable proseCoderEnv 2 \<and> responseUnparseable proseCoderEnv 3
   \<and> status (finalState (runAgent proseCoderEnv ''https://example.com'' None None)) \<noteq> Complete
   \<and> status (finalState (runAgent proseCoderEnv ''https://example.com'' None None)) = Failed"
proof -
  have "status (finalState (runAgent proseCoderEnv ''https://example.com'' None None)) = Failed"
    by code_simp
  then show ?thesis by (simp add: proseCoder_all_attempts)
qed


subsection \<open>An extraction that fails\<close>

text \<open>
  Claim C3 on the code.  When the extraction throws, the job ends with status \<open>failed\<close>
  and an empty decision log, as claimed; but the orchestrator goes on to invoke the
  architect, the coder and the validator, each of which fails on the missing input, so the
  final error list has four entries, tagged scout, architect, coder and qa, not one.
\<close>

theorem scout_failure_run:
  assumes "scoutRun ev u (jobId (initialState ev u instr jid)) = Inl e"
  shows "status (finalState (runAgent ev u instr jid)) = Failed
         \<and> decisionLog (finalState (runAgent ev u instr jid)) = []
         \<and> invoked (runAgent ev u instr jid) = [''scout'', ''architect'', ''coder'', ''qa'']
         \<and> map node (errors (finalState (runAgent ev u instr jid)))
             = [''scout'', ''architect'', ''coder'', ''qa'']"
proof -
  define s0 where "s0 = initialState ev u instr jid"
  define s1 where "s1 = s0\<lparr>status := Scouting, currentNode := Some ''scout''\<rparr>"
  define s2 where "s2 = merge s1 (scoutNode ev s1)"
  define s3 where "s3 = s2\<lparr>status := Planning, currentNode := Some ''architect''\<rparr>"
  define s4 where "s4 = merge s3 (architectNode ev s3)"
  define s5 where "s5 = s4\<lparr>status := Coding, currentNode := Some ''coder''\<rparr>"
  define s6 where "s6 = merge s5 (coderNode ev 0 s5)"
  define s7 where "s7 = s6\<lparr>status := Qa, currentNode := Some ''qa''\<rparr>"
  define s8 where "s8 = merge s7 (qaNode ev 0 s7)"
  have i: "scoutData s0 = None \<and> generatedCode s0 = None \<and> decisionLog s0 = [] \<and> errors s0 = []"
    by (simp add: s0_def initialState_def)
  have sc: "scoutNode ev s1 = failedUpdate ''scout'' s1 e (now ev)"
    using assms by (simp add: scoutNode_def s1_def s0_def initialState_def)
  have s2: "s2 = s1\<lparr>status := Failed,
       errors := errors s1 @ [\<lparr>node = ''scout'', error = message e, timestamp = now ev\<rparr>]\<rparr>"
    by (simp add: s2_def sc merge_failedUpdate)
  have n3: "scoutData s3 = None" using i by (simp add: s3_def s2 s1_def)
  have s4: "s4 = s3\<lparr>status := Failed,
       errors := errors s3 @ [\<lparr>node = ''architect'', error = message (typeErrorUndefined ''url''),
                               timestamp = now ev\<rparr>]\<rparr>"
    by (simp add: s4_def architectNode_no_scout [OF n3] merge_failedUpdate)
  have n5: "scoutData s5 = None" using n3 by (simp add: s5_def s4)
  have s6: "s6 = s5\<lparr>status := Failed,
       errors := errors s5 @ [\<lparr>node = ''coder'', error = message (typeErrorUndefined ''assets''),
                               timestamp = now ev\<rparr>]\<rparr>"
    by (simp add: s6_def coderNode_no_scout [OF n5] merge_failedUpdate)
  have g7: "generatedCode s7 = None" using i by (simp add: s7_def s6 s5_def s4 s3_def s2 s1_def)
  have s8: "s8 = s7\<lparr>status := Failed,
       errors := errors s7 @ [\<lparr>node = ''qa'', error = message (typeErrorUndefined ''files''),
                               timestamp = now ev\<rparr>]\<rparr>"
    by (simp add: s8_def qaNode_no_code [OF g7] merge_failedUpdate)
  have f8: "status s8 = Failed" by (simp add: s8)
  have run: "runAgent ev u instr jid = \<lparr>finalState = s8,
          persisted = [s0, s1, s2, s3, s4, s5, s6, s7, s8] @ [] @ [s8],
          invoked = [''scout'', ''architect'', ''coder'', ''qa''] @ []\<rparr>"
    unfolding runAgent_def runFrom_def Let_def s0_def [symmetric] s1_def [symmetric]
      s2_def [symmetric] s3_def [symmetric]
      s4_def [symmetric] s5_def [symmetric] s6_def [symmetric] s7_def [symmetric]
      s8_def [symmetric] retryLoop_failed [OF f8]
    by (simp add: f8)
  have d: "decisionLog s8 = []" using i by (simp add: s8 s7_def s6 s5_def s4 s3_def s2 s1_def)
  have er: "map node (errors s8) = [''scout'', ''architect'', ''coder'', ''qa'']"
    using i by (simp add: s8 s7_def s6 s5_def s4 s3_def s2 s1_def)
  show ?thesis unfolding run using f8 d er by simp
qed

text \<open>The theorem at the example job with an unresolvable host.\<close>

theorem scout_failure_run_witness:
  "map node (errors (finalState (runAgent scoutFailEnv ''https://example.invalid'' None None)))
     = [''scout'', ''architect'', ''coder'', ''qa'']
   \<and> length (errors (finalState (runAgent scoutFailEnv ''https://example.invalid'' None None))) = 4
   \<and> invoked (runAgent scoutFailEnv ''https://example.invalid'' None None)
     = [''scout'', ''architect'', ''coder'', ''qa'']"
proof -
  have a: "scoutRun scoutFailEnv ''https://example.invalid''
             (jobId (initialState scoutFailEnv ''https://example.invalid'' None None))
           = Inl (newError ''page.goto: net::ERR_NAME_NOT_RESOLVED'')"
    by (simp add: scoutFailEnv_def)
  from scout_failure_run [OF a]
  have m: "map node (errors (finalState (runAgent scoutFailEnv ''https://example.invalid'' None None)))
     = [''scout'', ''architect'', ''coder'', ''qa'']"
    and v: "invoked (runAgent scoutFailEnv ''https://example.invalid'' None None)
     = [''scout'', ''architect'', ''coder'', ''qa'']"
    by simp_all
  from arg_cong [OF m, of length]
  have "length (errors (finalState (runAgent scoutFailEnv ''https://example.invalid'' None None))) = 4"
    by simp
  with m v show ?thesis by simp
qed

subsection \<open>The entry file\<close>

text \<open>
  Claim C4 on the code.  For generated code whose only \<open>App.tsx\<close> is \<open>src/App.tsx\<close>, the
  coder stage succeeds with status \<open>qa\<close>, and the \<open>App.tsx\<close> entry it installs holds the
  file name \<open>src/App.tsx\<close>, not that file's source text.  And in the job whose coder stage
  fails, the orchestrator still writes a state with status \<open>qa\<close> and no generated code.
\<close>

theorem entry_file_holds_name:
  "map_option (\<lambda>gc. map_of (files gc) ''App.tsx'') (p_generatedCode (coderNode nestedAppEnv 0 readyState))
     = Some (Some ''src/App.tsx'')
   \<and> p_status (coderNode nestedAppEnv 0 readyState) = Some Qa
   \<and> map_of (files nestedAppCode) ''src/App.tsx'' = Some ''export default function App() { return null; }''
   \<and> list_ex (\<lambda>s. status s = Qa \<and> generatedCode s = None)
        (persisted (runAgent proseCoderEnv ''https://example.com'' None None))"
  by code_simp


subsection \<open>Streaming of validation results\<close>

text \<open>
  Claim C9 on the code.  The example job produces two validation results, with scores 72
  and 95.  A stream that polls every state the job writes emits the issues and the metrics
  of the first result once, and never those of the second: the only \<open>qa_metrics\<close> event
  carries the score 72.
\<close>

theorem stream_second_result_not_emitted:
  "remdups (map (map_option score \<circ> qaResult) (persisted retryJob)) = [None, Some 72, Some 95]
   \<and> map_option score (qaResult (finalState retryJob)) = Some 95
   \<and> List.map_filter qaMetricsScore (streamEvents retryJobPolls) = [72]
   \<and> length (filter isQaIssue (streamEvents retryJobPolls)) = 1"
  by code_simp


end
